theory Spec2Isabelle
  imports Complex_Main
begin

section \<open>Values of the form scripts\<close>

text \<open>
  The scripts are JavaScript event handlers over the documents of a form. A JavaScript
  number is modelled as an exact rational (every finite double is one); a field that may
  be unset is an \<open>option\<close>, an unset text field is the empty string. A JavaScript
  exception is a value of \<open>js_error\<close>.
\<close>

type_synonym number = rat

datatype js_error = TypeError | Thrown string

text \<open>Truthiness of a text field and of a numeric field that may be unset.\<close>

definition truthy :: "string \<Rightarrow> bool" where
  "truthy s = (s \<noteq> [])"

definition truthy_num :: "number option \<Rightarrow> bool" where
  "truthy_num v = (case v of None \<Rightarrow> False | Some x \<Rightarrow> x \<noteq> 0)"

text \<open>
  \<open>flt(v)\<close> of the framework with no precision given: an unset value is 0, a number is
  itself.
\<close>

definition flt :: "number option \<Rightarrow> number" where
  "flt v = (case v of None \<Rightarrow> 0 | Some x \<Rightarrow> x)"

text \<open>
  What the scripts take from the host framework and from the JavaScript runtime:
  \<open>round_to d x\<close> is the framework's rounding of \<open>x\<close> to \<open>d\<close> decimals under the
  configured rounding method, \<open>precision f\<close> the number of decimals of field \<open>f\<close>
  (possibly none), \<open>format_date\<close> is \<open>frappe.format(_, {fieldtype: 'Date'})\<close>,
  \<open>add_months\<close> is \<open>frappe.datetime.add_months\<close>, \<open>toFixed2\<close> is
  \<open>Number.prototype.toFixed(2)\<close>, and \<open>divide\<close> is the division of JavaScript numbers,
  whose result for a zero divisor is no finite number and is left to this parameter.
\<close>

record framework =
  round_to :: "nat \<Rightarrow> number \<Rightarrow> number"
  precision :: "string \<Rightarrow> nat option"
  format_date :: "string \<Rightarrow> string"
  add_months :: "string \<Rightarrow> number \<Rightarrow> string"
  toFixed2 :: "number \<Rightarrow> string"
  divide :: "number \<Rightarrow> number \<Rightarrow> number"

text \<open>\<open>flt(x, d)\<close> on a number: rounded when a precision is given.\<close>

definition flt_prec :: "framework \<Rightarrow> number \<Rightarrow> nat option \<Rightarrow> number" where
  "flt_prec fw x d = (case d of None \<Rightarrow> x | Some n \<Rightarrow> round_to fw n x)"

section \<open>TaxJar Settings\<close>

text \<open>
  The form of TaxJar Settings: the \<open>is_sandbox\<close> check field (0 or 1) and, for every
  field name, whether the field is required.
\<close>

record taxjar_form =
  is_sandbox :: int
  reqd_of :: "string \<Rightarrow> bool"

text \<open>\<open>frm.toggle_reqd(fieldname, mandatory)\<close> on that form.\<close>

definition taxjar_toggle_reqd :: "string \<Rightarrow> bool \<Rightarrow> taxjar_form \<Rightarrow> taxjar_form" where
  "taxjar_toggle_reqd f b frm = frm\<lparr>reqd_of := (reqd_of frm)(f := b)\<rparr>"

text \<open>The \<open>is_sandbox\<close> field-change handler of taxjar\_settings.js.\<close>

definition is_sandbox_handler :: "taxjar_form \<Rightarrow> taxjar_form" where
  "is_sandbox_handler frm =
     taxjar_toggle_reqd ''sandbox_api_key'' (is_sandbox frm \<noteq> 0)
       (taxjar_toggle_reqd ''api_key'' (\<not> (is_sandbox frm \<noteq> 0)) frm)"

section \<open>Asset\<close>

subsection \<open>Documents\<close>

text \<open>
  The fields the handlers read. A numeric field the script uses in arithmetic as it is,
  is a number; one it passes through \<open>flt\<close> or tests for truth may be unset. A check
  field read only for its truth is a \<open>bool\<close>. \<open>finance_book_id\<close> is the number of the
  row's finance book, counted from 1, so that \<open>Number(finance_book_id)\<close> is the value
  itself.
\<close>

record finance_book =
  depreciation_method :: string
  depreciation_start_date :: string
  frequency_of_depreciation :: number
  total_number_of_depreciations :: number
  expected_value_after_useful_life :: number
  salvage_value_percentage :: number
  rate_of_depreciation :: number

record schedule_row =
  finance_book_id :: int
  schedule_date :: string
  depreciation_amount :: "number option"
  accumulated_depreciation_amount :: number
  journal_entry :: string

record asset_doc =
  docstatus :: int
  status :: string
  item_code :: string
  company :: string
  purchase_receipt :: string
  purchase_invoice :: string
  purchase_date :: string
  available_for_use_date :: string
  disposal_date :: string
  creation :: string
  is_existing_asset :: bool
  is_composite_asset :: bool
  calculate_depreciation :: bool
  maintenance_required :: bool
  maintenance_schedule :: string
  capitalized_in :: string
  depr_entry_posting_status :: string
  gross_purchase_amount :: number
  purchase_receipt_amount :: number
  asset_quantity :: number
  opening_accumulated_depreciation :: "number option"
  cost_center :: string
  location :: string
  finance_books :: "finance_book list"
  schedules :: "schedule_row list"

subsection \<open>Accumulated depreciation of a manual schedule\<close>

text \<open>
  The sum \<open>accumulated_depreciation += flt(row.depreciation_amount)\<close> is JavaScript's
  addition of numbers, that is of IEEE 754 binary64 values: the exact sum rounded to the
  nearest double, a tie going to the even significand. The loop takes the addition as the
  parameter \<open>add\<close>; \<open>double_add\<close> is that addition on the rationals that are doubles.
  \<open>floor_log2 q\<close> is the exponent of the leading bit of \<open>q\<close>, and a double has 53
  significant bits, its last bit not below \<open>2 ^ - 1074\<close>. A sum beyond the largest
  double, \<open>Infinity\<close> in JavaScript, is no number of this model: \<open>to_double\<close> is meant
  for values below \<open>2 ^ 1024\<close> in absolute value.
\<close>

function bit_length :: "int \<Rightarrow> int" where
  "bit_length n = (if n \<le> 0 then 0 else 1 + bit_length (n div 2))"
  by pat_completeness auto
termination
  by (relation "measure nat") auto

declare bit_length.simps [simp del]

definition pow2 :: "int \<Rightarrow> rat" where
  "pow2 k = (if 0 \<le> k then 2 ^ nat k else 1 / 2 ^ nat (- k))"

definition floor_log2 :: "rat \<Rightarrow> int" where
  "floor_log2 q =
     (case quotient_of \<bar>q\<bar> of (a, b) \<Rightarrow>
        (let k = bit_length a - bit_length b
         in if pow2 k \<le> \<bar>q\<bar> then k else k - 1))"

definition round_half_even :: "rat \<Rightarrow> int" where
  "round_half_even q =
     (let f = \<lfloor>q\<rfloor>; r = q - of_int f
      in if r < 1 / 2 then f else if 1 / 2 < r then f + 1 else if even f then f else f + 1)"

definition to_double :: "rat \<Rightarrow> number" where
  "to_double q =
     (if q = 0 then 0
      else let e = max (floor_log2 q - 52) (- 1074)
           in of_int (round_half_even (q / pow2 e)) * pow2 e)"

definition double_add :: "number \<Rightarrow> number \<Rightarrow> number" where
  "double_add x y = to_double (x + y)"

text \<open>
  The loop of \<open>erpnext.asset.set_accumulated_depreciation\<close> over \<open>frm.doc.schedules\<close>:
  \<open>acc\<close> is the running \<open>accumulated_depreciation\<close>, stored as it is, with no rounding.
  \<open>frappe.model.set_value(row.doctype, row.name, ...)\<close> writes the field of the row itself
  (the document stored under the row's doctype and name); no handler of this script
  listens to that field.
\<close>

fun accumulate ::
    "(number \<Rightarrow> number \<Rightarrow> number) \<Rightarrow> int \<Rightarrow> number \<Rightarrow> schedule_row list \<Rightarrow> schedule_row list" where
  "accumulate add fbid acc [] = []"
| "accumulate add fbid acc (row # rows) =
     (if finance_book_id row = fbid
      then (let acc' = add acc (flt (depreciation_amount row))
            in row\<lparr>accumulated_depreciation_amount := acc'\<rparr> # accumulate add fbid acc' rows)
      else row # accumulate add fbid acc rows)"

text \<open>
  \<open>frm.doc.finance_books[Number(finance_book_id) - 1]\<close> is \<open>undefined\<close> outside the
  list, and reading \<open>depreciation_method\<close> of it throws a TypeError.
\<close>

definition set_accumulated_depreciation ::
    "(number \<Rightarrow> number \<Rightarrow> number) \<Rightarrow> asset_doc \<Rightarrow> int \<Rightarrow> js_error + asset_doc" where
  "set_accumulated_depreciation add d fbid =
     (let i = fbid - 1 in
      if i < 0 \<or> int (length (finance_books d)) \<le> i then Inl TypeError
      else if depreciation_method (finance_books d ! nat i) \<noteq> ''Manual'' then Inr d
      else Inr (d\<lparr>schedules :=
                  accumulate add fbid (flt (opening_accumulated_depreciation d)) (schedules d)\<rparr>))"

text \<open>
  The depreciation amounts of the rows of finance book \<open>fbid\<close> up to and including row
  \<open>i\<close>, in list order; the running total that starts from \<open>acc\<close> and adds them one
  after the other; and their sum as a sum of numbers, as the words ``plus the sum of''
  have it.
\<close>

definition amounts_upto :: "int \<Rightarrow> schedule_row list \<Rightarrow> nat \<Rightarrow> number list" where
  "amounts_upto fbid rows i =
     map (\<lambda>r. flt (depreciation_amount r))
       (filter (\<lambda>r. finance_book_id r = fbid) (take (Suc i) rows))"

definition running_total ::
    "(number \<Rightarrow> number \<Rightarrow> number) \<Rightarrow> number \<Rightarrow> int \<Rightarrow> schedule_row list \<Rightarrow> nat \<Rightarrow> number" where
  "running_total add acc fbid rows i = foldl add acc (amounts_upto fbid rows i)"

definition depreciation_upto :: "int \<Rightarrow> schedule_row list \<Rightarrow> nat \<Rightarrow> number" where
  "depreciation_upto fbid rows i = sum_list (amounts_upto fbid rows i)"

text \<open>
  The values of \<open>accumulated_depreciation_amount\<close> in the schedule after a run, in list
  order.
\<close>

definition accumulated_amounts ::
    "(number \<Rightarrow> number \<Rightarrow> number) \<Rightarrow> asset_doc \<Rightarrow> int \<Rightarrow> number list" where
  "accumulated_amounts add d fbid =
     (case set_accumulated_depreciation add d fbid of
        Inl e \<Rightarrow> []
      | Inr d' \<Rightarrow> map accumulated_depreciation_amount (schedules d'))"

subsection \<open>The asset-value chart\<close>

text \<open>
  A reply of the server method \<open>get_manual_depreciation_entries\<close>, and the graph handed
  to \<open>frm.dashboard.render_graph\<close>: a value of the series is a number or \<open>null\<close>.
\<close>

record depr_entry =
  posting_date :: string
  entry_value :: number

record graph =
  graph_title :: string
  graph_type :: string
  color :: string
  labels :: "string list"
  graph_values :: "number option list"
  formatted :: "string option list"

definition disposed :: "asset_doc \<Rightarrow> bool" where
  "disposed d = (status d = ''Scrapped'' \<or> status d = ''Sold'')"

text \<open>The value one schedule row pushes in the loop over \<open>frm.doc.schedules\<close>.\<close>

definition schedule_value :: "framework \<Rightarrow> asset_doc \<Rightarrow> schedule_row \<Rightarrow> number option" where
  "schedule_value fw d v =
     (let asset_value = flt_prec fw (gross_purchase_amount d - accumulated_depreciation_amount v)
                          (precision fw ''gross_purchase_amount'')
      in if truthy (journal_entry v) then Some asset_value
         else if disposed d then None
         else Some asset_value)"

text \<open>
  The loop over the manual depreciation entries: each value is the last value of
  \<open>asset_values\<close> (here \<open>lst\<close>, always a number on this branch) less the entry's value.
\<close>

fun manual_values :: "framework \<Rightarrow> number \<Rightarrow> depr_entry list \<Rightarrow> number list" where
  "manual_values fw lst [] = []"
| "manual_values fw lst (v # vs) =
     (let x = flt_prec fw (lst - entry_value v) (precision fw ''gross_purchase_amount'')
      in x # manual_values fw x vs)"

text \<open>
  \<open>setup_chart\<close>: \<open>Inr None\<close> is the return without a graph, \<open>Inr (Some g)\<close> the graph
  rendered, \<open>Inl e\<close> the exception that rejects the handler's promise.
  \<open>depr_entries\<close> is the awaited reply (an absent reply is the empty list).
  Reading \<open>frm.doc.finance_books[0].depreciation_start_date\<close> with no finance book
  throws a TypeError. \<open>opening_value\<close> is pushed only where
  \<open>opening_accumulated_depreciation\<close> is a number other than 0, which \<open>flt\<close> leaves as
  it is.
\<close>

definition setup_chart ::
    "framework \<Rightarrow> depr_entry list \<Rightarrow> asset_doc \<Rightarrow> js_error + graph option" where
  "setup_chart fw depr_entries d =
     (if length (finance_books d) > 1 then Inr None
      else
        let x0 = [format_date fw (purchase_date d)];
            a0 = [Some (gross_purchase_amount d)];
            opening_value = flt_prec fw
              (gross_purchase_amount d - flt (opening_accumulated_depreciation d))
              (precision fw ''gross_purchase_amount'');
            tail_x = (if disposed d then [format_date fw (disposal_date d)] else []);
            tail_a = (if disposed d then [Some 0] else []);
            render = (\<lambda>x a. Inr (Some \<lparr>graph_title = ''Asset Value'', graph_type = ''line'',
                       color = ''green'', labels = x @ tail_x, graph_values = a @ tail_a,
                       formatted = map (map_option (toFixed2 fw)) (a @ tail_a)\<rparr>))
        in
        if calculate_depreciation d then
          (if truthy_num (opening_accumulated_depreciation d) then
             (case finance_books d of
                [] \<Rightarrow> Inl TypeError
              | fb # _ \<Rightarrow>
                  let depreciation_date = add_months fw (depreciation_start_date fb)
                                            (- 1 * frequency_of_depreciation fb)
                  in render
                       (x0 @ [format_date fw depreciation_date]
                          @ map (\<lambda>v. format_date fw (schedule_date v)) (schedules d))
                       (a0 @ [Some opening_value] @ map (schedule_value fw d) (schedules d)))
           else render
                  (x0 @ map (\<lambda>v. format_date fw (schedule_date v)) (schedules d))
                  (a0 @ map (schedule_value fw d) (schedules d)))
        else
          (if truthy_num (opening_accumulated_depreciation d) then
             render
               (x0 @ [format_date fw (takeWhile (\<lambda>c. c \<noteq> CHR '' '') (creation d))]
                  @ map (\<lambda>v. format_date fw (posting_date v)) depr_entries)
               (a0 @ [Some opening_value]
                  @ map Some (manual_values fw opening_value depr_entries))
           else render
                  (x0 @ map (\<lambda>v. format_date fw (posting_date v)) depr_entries)
                  (a0 @ map Some (manual_values fw (gross_purchase_amount d) depr_entries))))"

subsection \<open>The Manage buttons of refresh\<close>

text \<open>
  The custom buttons \<open>refresh\<close> adds with \<open>frm.add_custom_button\<close>, in order, each with
  its group (the empty string when none is given).
\<close>

type_synonym button = "string \<times> string"

definition refresh_buttons :: "asset_doc \<Rightarrow> button list" where
  "refresh_buttons d =
     (if docstatus d = 1 then
        (if status d \<in> set [''Submitted'', ''Partially Depreciated'', ''Fully Depreciated'']
         then [(''Transfer Asset'', ''Manage''), (''Scrap Asset'', ''Manage''),
               (''Sell Asset'', ''Manage'')]
         else if status d = ''Scrapped'' then [(''Restore Asset'', ''Manage'')]
         else [])
        @ (if maintenance_required d \<and> \<not> truthy (maintenance_schedule d)
           then [(''Maintain Asset'', ''Manage'')] else [])
        @ [(''Repair Asset'', ''Manage''), (''Split Asset'', ''Manage'')]
        @ (if status d \<noteq> ''Fully Depreciated''
           then [(''Adjust Asset Value'', ''Manage'')] else [])
        @ (if \<not> calculate_depreciation d
           then [(''Create Depreciation Entry'', ''Manage'')] else [])
        @ (if truthy (purchase_receipt d) \<or> \<not> is_existing_asset d
           then [(''View General Ledger'', ''Manage'')] else [])
      else [])
     @ (if docstatus d = 0 \<and> is_composite_asset d \<and> \<not> truthy (capitalized_in d)
        then [(''Capitalize Asset'', [])] else [])"

text \<open>
  The status values the form script compares \<open>frm.doc.status\<close> with, in \<open>refresh\<close> and
  in \<open>setup_chart\<close>; and the enumeration of the data model.
\<close>

definition branch_statuses :: "string list" where
  "branch_statuses =
     [''Submitted'', ''Partially Depreciated'', ''Fully Depreciated'', ''Scrapped'', ''Sold'']"

definition spec_statuses :: "string list" where
  "spec_statuses = [''Draft'', ''Submitted'', ''Scrapped'', ''Sold'', ''Fully Depreciated'']"

subsection \<open>The form and its field-change handlers\<close>

text \<open>
  The state a handler of the Asset form works on: the document, the \<open>reqd\<close> and
  \<open>read_only\<close> properties of the fields, the two flags of \<open>frappe.flags\<close> the script
  uses, the modal messages shown with \<open>frappe.msgprint\<close>, and the requests sent to the
  server, both in order. The translation function \<open>__\<close> is taken as the identity.
\<close>

record msgprint =
  title :: string
  message :: string
  indicator :: string

datatype request =
    Get_doc string string
  | Get_value string string string
  | Get_depreciation_rate finance_book

record asset_form =
  doc :: asset_doc
  reqd :: "string \<Rightarrow> bool"
  read_only :: "string \<Rightarrow> bool"
  from_set_salvage_value_percentage_or_expected_value_after_useful_life :: bool
  dont_change_rate :: bool
  msgprints :: "msgprint list"
  requests :: "request list"

definition toggle_reqd :: "string \<Rightarrow> bool \<Rightarrow> asset_form \<Rightarrow> asset_form" where
  "toggle_reqd f b frm = frm\<lparr>reqd := (reqd frm)(f := b)\<rparr>"

definition set_read_only :: "string \<Rightarrow> bool \<Rightarrow> asset_form \<Rightarrow> asset_form" where
  "set_read_only f b frm = frm\<lparr>read_only := (read_only frm)(f := b)\<rparr>"

definition frappe_msgprint :: "msgprint \<Rightarrow> asset_form \<Rightarrow> asset_form" where
  "frappe_msgprint m frm = frm\<lparr>msgprints := msgprints frm @ [m]\<rparr>"

definition send :: "request \<Rightarrow> asset_form \<Rightarrow> asset_form" where
  "send r frm = frm\<lparr>requests := requests frm @ [r]\<rparr>"

definition toggle_reference_doc :: "asset_form \<Rightarrow> asset_form" where
  "toggle_reference_doc frm =
     (if truthy (purchase_receipt (doc frm)) \<and> truthy (purchase_invoice (doc frm))
         \<and> docstatus (doc frm) = 1
      then set_read_only ''purchase_receipt'' True (set_read_only ''purchase_invoice'' True frm)
      else if is_existing_asset (doc frm) \<or> is_composite_asset (doc frm)
      then toggle_reqd ''purchase_invoice'' False (toggle_reqd ''purchase_receipt'' False frm)
      else if truthy (purchase_receipt (doc frm))
      then set_read_only ''purchase_invoice'' True (toggle_reqd ''purchase_invoice'' False frm)
      else if truthy (purchase_invoice (doc frm))
      then set_read_only ''purchase_receipt'' True (toggle_reqd ''purchase_receipt'' False frm)
      else set_read_only ''purchase_invoice'' False (toggle_reqd ''purchase_invoice'' True
             (set_read_only ''purchase_receipt'' False (toggle_reqd ''purchase_receipt'' True frm))))"

text \<open>
  The \<open>purchase_receipt\<close> and \<open>purchase_invoice\<close> handlers. \<open>frm.set_value(f, v)\<close> of the
  framework stores \<open>v\<close> and, the stored value having changed, has the handler of \<open>f\<close>
  run on the changed document: clearing a set reference runs the handler once more, on
  the empty reference, where it only sets field properties. The model places that run,
  and the run of \<open>frm.trigger('toggle_reference_doc')\<close>, at the call; the document, the
  messages and the requests a handler leaves do not depend on that placement. Fetching
  the purchase document is a request; its reply is a later event.
\<close>

definition not_allowed :: msgprint where
  "not_allowed = \<lparr>title = ''Not Allowed'', message = ''Please select Item Code first'',
                   indicator = []\<rparr>"

function purchase_receipt_handler :: "asset_form \<Rightarrow> asset_form" where
  "purchase_receipt_handler frm =
     (let frm1 = toggle_reference_doc frm in
      if truthy (purchase_receipt (doc frm1)) then
        (if truthy (item_code (doc frm1))
         then send (Get_doc ''Purchase Receipt'' (purchase_receipt (doc frm1))) frm1
         else frappe_msgprint not_allowed
                (purchase_receipt_handler (frm1\<lparr>doc := (doc frm1)\<lparr>purchase_receipt := []\<rparr>\<rparr>)))
      else frm1)"
  by pat_completeness auto
termination
  by (relation "measure (\<lambda>frm. if truthy (purchase_receipt (doc frm)) then 1 else 0)")
     (auto simp: truthy_def toggle_reference_doc_def toggle_reqd_def set_read_only_def
           split: if_splits)

declare purchase_receipt_handler.simps [simp del]

function purchase_invoice_handler :: "asset_form \<Rightarrow> asset_form" where
  "purchase_invoice_handler frm =
     (let frm1 = toggle_reference_doc frm in
      if truthy (purchase_invoice (doc frm1)) then
        (if truthy (item_code (doc frm1))
         then send (Get_doc ''Purchase Invoice'' (purchase_invoice (doc frm1))) frm1
         else frappe_msgprint not_allowed
                (purchase_invoice_handler (frm1\<lparr>doc := (doc frm1)\<lparr>purchase_invoice := []\<rparr>\<rparr>)))
      else frm1)"
  by pat_completeness auto
termination
  by (relation "measure (\<lambda>frm. if truthy (purchase_invoice (doc frm)) then 1 else 0)")
     (auto simp: truthy_def toggle_reference_doc_def toggle_reqd_def set_read_only_def
           split: if_splits)

declare purchase_invoice_handler.simps [simp del]

subsection \<open>Values from a purchase document\<close>

record purchase_item =
  pi_item_code :: string
  qty :: number
  valuation_rate :: number
  pi_cost_center :: string
  asset_location :: string

record purchase_doc =
  pd_company :: string
  bill_date :: string
  posting_date_pd :: string
  pd_cost_center :: string
  items :: "purchase_item list"

datatype purchase_doctype = Purchase_Receipt | Purchase_Invoice

fun doctype_name :: "purchase_doctype \<Rightarrow> string" where
  "doctype_name Purchase_Receipt = ''Purchase Receipt''"
| "doctype_name Purchase_Invoice = ''Purchase Invoice''"

text \<open>
  \<open>frm.set_value(frappe.scrub(doctype), '')\<close>: the reference field of the doctype is
  cleared, and its handler runs when the stored value changes.
\<close>

fun clear_reference :: "purchase_doctype \<Rightarrow> asset_form \<Rightarrow> asset_form" where
  "clear_reference Purchase_Receipt frm =
     (if purchase_receipt (doc frm) = [] then frm
      else purchase_receipt_handler (frm\<lparr>doc := (doc frm)\<lparr>purchase_receipt := []\<rparr>\<rparr>))"
| "clear_reference Purchase_Invoice frm =
     (if purchase_invoice (doc frm) = [] then frm
      else purchase_invoice_handler (frm\<lparr>doc := (doc frm)\<lparr>purchase_invoice := []\<rparr>\<rparr>))"

definition invalid_doc :: "purchase_doctype \<Rightarrow> msgprint" where
  "invalid_doc dt =
     \<lparr>title = ''Invalid '' @ doctype_name dt,
      message = ''The selected '' @ doctype_name dt
                  @ '' does not contain the selected Asset Item.'',
      indicator = ''red''\<rparr>"

text \<open>
  \<open>set_values_from_purchase_doc\<close>, up to its return or its exception: the result is the
  exception thrown, if any, and the form as the run leaves it. With no matching item,
  \<open>item\<close> is \<open>undefined\<close>; the branch that reports it does not return, and the
  statement after it reads \<open>item.item_code\<close>. The handler of \<open>company\<close> updates the
  accounting dimensions, which are no fields of this model; \<open>purchase_date\<close> and
  \<open>available_for_use_date\<close> have no handler. The callback of the \<open>get_value\<close> request,
  which sets \<open>gross_purchase_amount\<close>, \<open>purchase_receipt_amount\<close> and \<open>asset_quantity\<close>,
  runs on the reply only.
\<close>

definition set_values_from_purchase_doc ::
    "purchase_doctype \<Rightarrow> purchase_doc \<Rightarrow> asset_form \<Rightarrow> js_error option \<times> asset_form" where
  "set_values_from_purchase_doc dt purchase_doc frm =
     (let frm1 = frm\<lparr>doc := (doc frm)\<lparr>company := pd_company purchase_doc\<rparr>\<rparr>;
          frm2 = frm1\<lparr>doc := (doc frm1)\<lparr>purchase_date :=
                   (if truthy (bill_date purchase_doc) then bill_date purchase_doc
                    else posting_date_pd purchase_doc)\<rparr>\<rparr>;
          frm3 = (if \<not> is_existing_asset (doc frm2) \<and> \<not> truthy (available_for_use_date (doc frm2))
                  then frm2\<lparr>doc := (doc frm2)\<lparr>available_for_use_date := purchase_date (doc frm2)\<rparr>\<rparr>
                  else frm2)
      in case find (\<lambda>item. pi_item_code item = item_code (doc frm3)) (items purchase_doc) of
           None \<Rightarrow> (Some TypeError, frappe_msgprint (invalid_doc dt) (clear_reference dt frm3))
         | Some item \<Rightarrow>
             (None, send (Get_value ''Item'' (pi_item_code item) ''is_grouped_asset'') frm3))"

subsection \<open>Handlers of the finance-book rows\<close>

text \<open>
  A handler of the child doctype Asset Finance Book works on the form and on the row
  \<open>locals[cdt][cdn]\<close>. \<open>set_depreciation_rate\<close> sends its request; the callback of the
  reply is \<open>set_depreciation_rate_callback\<close>, a later event.
\<close>

definition set_depreciation_rate :: "asset_form \<Rightarrow> finance_book \<Rightarrow> asset_form" where
  "set_depreciation_rate frm row =
     (if total_number_of_depreciations row \<noteq> 0 \<and> frequency_of_depreciation row \<noteq> 0
         \<and> expected_value_after_useful_life row \<noteq> 0
      then send (Get_depreciation_rate row) frm
      else frm)"

text \<open>
  Modelled from the spec: \<open>frappe.model.set_value\<close>, which dispatches the change
  handlers of a field, is code of the host framework and not among the sources. The spec
  has the flags suppress re-entrant field-change handlers, so
  \<open>frappe.model.set_value(row.doctype, row.name, f, v)\<close> is taken to store \<open>v\<close> in the row
  and, the stored value having changed, to run the handler of \<open>f\<close> before it returns:
  the handler is re-entered between the two assignments of the flag.
\<close>

function expected_value_after_useful_life_handler ::
    "framework \<Rightarrow> asset_form \<times> finance_book \<Rightarrow> asset_form \<times> finance_book"
  and salvage_value_percentage_handler ::
    "framework \<Rightarrow> asset_form \<times> finance_book \<Rightarrow> asset_form \<times> finance_book"
  and set_salvage_value_percentage_or_expected_value_after_useful_life ::
    "framework \<Rightarrow> asset_form \<times> finance_book \<Rightarrow> bool \<Rightarrow> bool \<Rightarrow> asset_form \<times> finance_book"
where
  "expected_value_after_useful_life_handler fw (frm, row) =
     (let (frm1, row1) =
            (if \<not> from_set_salvage_value_percentage_or_expected_value_after_useful_life frm
             then set_salvage_value_percentage_or_expected_value_after_useful_life fw
                    (frm, row) False True
             else (frm, row))
      in (set_depreciation_rate frm1 row1, row1))"
| "salvage_value_percentage_handler fw (frm, row) =
     (if \<not> from_set_salvage_value_percentage_or_expected_value_after_useful_life frm
      then set_salvage_value_percentage_or_expected_value_after_useful_life fw
             (frm, row) True False
      else (frm, row))"
| "set_salvage_value_percentage_or_expected_value_after_useful_life fw (frm, row)
       salvage_value_percentage_changed expected_value_after_useful_life_changed =
     (if expected_value_after_useful_life_changed then
        (let frm1 = frm\<lparr>from_set_salvage_value_percentage_or_expected_value_after_useful_life := True\<rparr>;
             new_salvage_value_percentage =
               flt_prec fw (divide fw (expected_value_after_useful_life row * 100)
                                      (gross_purchase_amount (doc frm1)))
                 (precision fw ''salvage_value_percentage'');
             (frm2, row2) =
               (if salvage_value_percentage row = new_salvage_value_percentage then (frm1, row)
                else salvage_value_percentage_handler fw
                       (frm1, row\<lparr>salvage_value_percentage := new_salvage_value_percentage\<rparr>))
         in (frm2\<lparr>from_set_salvage_value_percentage_or_expected_value_after_useful_life := False\<rparr>,
             row2))
      else if salvage_value_percentage_changed then
        (let frm1 = frm\<lparr>from_set_salvage_value_percentage_or_expected_value_after_useful_life := True\<rparr>;
             new_expected_value_after_useful_life =
               flt_prec fw (gross_purchase_amount (doc frm1)
                              * divide fw (salvage_value_percentage row) 100)
                 (precision fw ''gross_purchase_amount'');
             (frm2, row2) =
               (if expected_value_after_useful_life row = new_expected_value_after_useful_life
                then (frm1, row)
                else expected_value_after_useful_life_handler fw
                       (frm1, row\<lparr>expected_value_after_useful_life :=
                                      new_expected_value_after_useful_life\<rparr>))
         in (frm2\<lparr>from_set_salvage_value_percentage_or_expected_value_after_useful_life := False\<rparr>,
             row2))
      else (frm, row))"
  by pat_completeness auto
termination
  by (relation "measure (\<lambda>x. case x of
          Inl (fw, frm, row) \<Rightarrow>
            (if from_set_salvage_value_percentage_or_expected_value_after_useful_life frm
             then 0 else 2)
        | Inr (Inl (fw, frm, row)) \<Rightarrow>
            (if from_set_salvage_value_percentage_or_expected_value_after_useful_life frm
             then 0 else 2)
        | Inr (Inr (fw, (frm, row), pc, ec)) \<Rightarrow> (1::nat))")
     auto

declare expected_value_after_useful_life_handler.simps [simp del]
declare salvage_value_percentage_handler.simps [simp del]
declare set_salvage_value_percentage_or_expected_value_after_useful_life.simps [simp del]

text \<open>
  The values \<open>set_salvage_value_percentage_or_expected_value_after_useful_life\<close> writes
  into the mirrored field.
\<close>

definition new_salvage_value_percentage ::
    "framework \<Rightarrow> asset_form \<Rightarrow> finance_book \<Rightarrow> number" where
  "new_salvage_value_percentage fw frm row =
     flt_prec fw (divide fw (expected_value_after_useful_life row * 100)
                            (gross_purchase_amount (doc frm)))
       (precision fw ''salvage_value_percentage'')"

definition new_expected_value_after_useful_life ::
    "framework \<Rightarrow> asset_form \<Rightarrow> finance_book \<Rightarrow> number" where
  "new_expected_value_after_useful_life fw frm row =
     flt_prec fw (gross_purchase_amount (doc frm) * divide fw (salvage_value_percentage row) 100)
       (precision fw ''gross_purchase_amount'')"

text \<open>
  The \<open>rate_of_depreciation\<close> handler, and the callback of \<open>set_depreciation_rate\<close> with
  the reply \<open>r.message\<close>.
\<close>

definition rate_of_depreciation_handler ::
    "framework \<Rightarrow> asset_form \<times> finance_book \<Rightarrow> asset_form \<times> finance_book" where
  "rate_of_depreciation_handler fw s =
     (case s of (frm, row) \<Rightarrow>
        (let (frm1, row1) =
               (if \<not> dont_change_rate frm then
                  (if expected_value_after_useful_life row = 0 then (frm, row)
                   else expected_value_after_useful_life_handler fw
                          (frm, row\<lparr>expected_value_after_useful_life := 0\<rparr>))
                else (frm, row))
         in (frm1\<lparr>dont_change_rate := False\<rparr>, row1)))"

definition set_depreciation_rate_callback ::
    "framework \<Rightarrow> number option \<Rightarrow> asset_form \<times> finance_book \<Rightarrow> asset_form \<times> finance_book" where
  "set_depreciation_rate_callback fw r_message s =
     (case s of (frm, row) \<Rightarrow>
        (if truthy_num r_message then
           (let frm1 = frm\<lparr>dont_change_rate := True\<rparr>;
                rate = flt_prec fw (flt r_message) (precision fw ''rate_of_depreciation'')
            in if rate_of_depreciation row = rate then (frm1, row)
               else rate_of_depreciation_handler fw (frm1, row\<lparr>rate_of_depreciation := rate\<rparr>))
         else (frm, row)))"

section \<open>Sales Order\<close>

subsection \<open>Documents\<close>

record so_item =
  so_name :: string
  so_item_name :: string
  so_item_code :: string
  uom :: string
  supplier :: string
  so_qty :: number
  stock_qty :: "number option"
  ordered_qty :: "number option"
  delivered_qty :: "number option"
  conversion_factor :: "number option"
  delivered_by_supplier :: int

record packed_item =
  parent_detail_docname :: string
  packed_ordered_qty :: "number option"

record sales_order =
  so_docstatus :: int
  so_status :: string
  per_delivered :: "number option"
  per_billed :: "number option"
  per_picked :: "number option"
  order_type :: string
  skip_delivery_note :: bool
  is_internal_customer :: bool
  auto_repeat :: string
  inter_company_order_reference :: string
  so_company :: string
  represents_company :: string
  so_items :: "so_item list"
  packed_items :: "packed_item list"

text \<open>
  What \<open>refresh\<close> reads besides the document: \<open>this.frm.has_perm("submit")\<close> and
  \<open>frappe.boot.sysdefaults.over_billing_allowance\<close>.
\<close>

record so_env =
  has_perm_submit :: bool
  over_billing_allowance :: number

subsection \<open>The buttons of refresh\<close>

text \<open>\<open>flt(v, d)\<close> on a field that may be unset.\<close>

definition flt_dec :: "framework \<Rightarrow> number option \<Rightarrow> nat \<Rightarrow> number" where
  "flt_dec fw v d = flt_prec fw (flt v) (Some d)"

text \<open>
  The condition under which the Hold and Close buttons are added:
  \<open>flt(doc.per_delivered, 6) < 100 || flt(doc.per_billed) < 100\<close>.
\<close>

definition not_fully_delivered_or_billed :: "framework \<Rightarrow> sales_order \<Rightarrow> bool" where
  "not_fully_delivered_or_billed fw d =
     (flt_dec fw (per_delivered d) 6 < 100 \<or> flt (per_billed d) < 100)"

text \<open>
  The custom buttons \<open>SalesOrderController.refresh\<close> itself adds, in order, each with its
  group. The calls \<open>super.refresh()\<close> and \<open>this.order_type(doc)\<close> around them belong to
  the selling controller and to the grid, and add nothing here.
\<close>

definition SalesOrderController_refresh ::
    "framework \<Rightarrow> so_env \<Rightarrow> sales_order \<Rightarrow> button list" where
  "SalesOrderController_refresh fw env d =
     (let allow_delivery =
            (list_ex (\<lambda>item. delivered_by_supplier item = 0 \<and> so_qty item > flt (delivered_qty item))
               (so_items d)
             \<and> \<not> skip_delivery_note d);
          order_is_a_sale = (order_type d \<in> set [''Sales'', ''Shopping Cart'']);
          order_is_maintenance = (order_type d \<in> set [''Maintenance'']);
          order_is_a_custom_sale =
            (order_type d \<notin> set [''Sales'', ''Shopping Cart'', ''Maintenance''])
      in
      (if so_docstatus d = 1 then
         (if has_perm_submit env then
            (if so_status d = ''On Hold'' then
               [(''Resume'', ''Status'')]
               @ (if not_fully_delivered_or_billed fw d then [(''Close'', ''Status'')] else [])
             else if so_status d = ''Closed'' then [(''Re-open'', ''Status'')]
             else [])
          else [])
         @ (if so_status d \<noteq> ''Closed'' then
              (if so_status d \<noteq> ''On Hold'' then
                 (if has_perm_submit env \<and> not_fully_delivered_or_billed fw d
                  then [(''Hold'', ''Status''), (''Close'', ''Status'')] else [])
                 @ (if flt_dec fw (per_picked d) 6 < 100 \<and> flt_dec fw (per_delivered d) 6 < 100
                    then [(''Pick List'', ''Create'')] else [])
                 @ (if flt_dec fw (per_delivered d) 6 < 100
                       \<and> (order_is_a_sale \<or> order_is_a_custom_sale) \<and> allow_delivery
                    then [(''Delivery Note'', ''Create''), (''Work Order'', ''Create'')] else [])
                 @ (if flt_dec fw (per_billed d) 6 < 100
                    then [(''Sales Invoice'', ''Create'')] else [])
                 @ (if \<not> truthy (order_type d)
                       \<or> (order_is_a_sale \<or> order_is_a_custom_sale)
                          \<and> flt_dec fw (per_delivered d) 6 < 100
                    then [(''Material Request'', ''Create''),
                          (''Request for Raw Materials'', ''Create'')] else [])
                 @ (if \<not> is_internal_customer d
                    then [(''Purchase Order'', ''Create'')] else [])
                 @ (if flt_dec fw (per_delivered d) 2 < 100
                       \<and> (order_is_maintenance \<or> order_is_a_custom_sale)
                    then [(''Maintenance Visit'', ''Create''),
                          (''Maintenance Schedule'', ''Create'')] else [])
                 @ (if flt_dec fw (per_delivered d) 2 < 100
                    then [(''Project'', ''Create'')] else [])
                 @ (if \<not> truthy (auto_repeat d)
                    then [(''Subscription'', ''Create'')] else [])
                 @ (if so_docstatus d = 1 \<and> \<not> truthy (inter_company_order_reference d)
                       \<and> is_internal_customer d
                    then [(if so_company d = represents_company d
                           then ''Internal Purchase Order''
                           else ''Inter Company Purchase Order'', ''Create'')]
                    else [])
               else [])
              @ (if flt_prec fw (flt (per_billed d)) (precision fw ''per_billed'')
                      < 100 + over_billing_allowance env
                 then [(''Payment Request'', ''Create''), (''Payment'', ''Create'')] else [])
            else [])
       else [])
      @ (if so_docstatus d = 0 then [(''Quotation'', ''Get Items From'')] else []))"

subsection \<open>Purchase order from a sales order\<close>

text \<open>
  \<open>get_ordered_qty\<close>: the item's own \<open>ordered_qty\<close> (possibly unset), or the mean of
  the ordered quantities of its packed items.
\<close>

definition get_ordered_qty :: "so_item \<Rightarrow> sales_order \<Rightarrow> number option" where
  "get_ordered_qty item so =
     (if packed_items so \<noteq> [] then
        (let pis = filter (\<lambda>pi. parent_detail_docname pi = so_name item) (packed_items so)
         in if pis \<noteq> []
            then Some (foldl (\<lambda>sum pi. sum + flt (packed_ordered_qty pi)) 0 pis
                         / of_nat (length pis))
            else ordered_qty item)
      else ordered_qty item)"

record po_item =
  po_name :: string
  po_item_name :: string
  po_item_code :: string
  pending_qty :: number
  po_uom :: string
  po_supplier :: string

text \<open>
  The rows \<open>set_po_items_data\<close> offers when the dialog opens (its check box
  \<open>against_default_supplier\<close> is 0 then). An unset \<open>ordered_qty\<close> makes the pending
  quantity NaN, which is not greater than 0.
\<close>

definition po_items :: "framework \<Rightarrow> sales_order \<Rightarrow> po_item list" where
  "po_items fw so =
     concat (map (\<lambda>d.
        case get_ordered_qty d so of
          None \<Rightarrow> []
        | Some ordered \<Rightarrow>
            (let pending = divide fw (flt (stock_qty d) - ordered) (flt (conversion_factor d))
             in if pending > 0
                then [\<lparr>po_name = so_name d, po_item_name = so_item_name d,
                       po_item_code = so_item_code d, pending_qty = pending,
                       po_uom = uom d, po_supplier = supplier d\<rparr>]
                else []))
       (so_items so))"

record po_dialog =
  dialog_title :: string
  items_for_po :: "po_item list"

definition all_ordered :: string where
  "all_ordered = ''Purchase Order already created for all Sales Order items''"

text \<open>
  \<open>make_purchase_order\<close>: \<open>frappe.throw\<close> raises, so nothing after it runs; otherwise
  the dialog is built, filled and shown.
\<close>

definition make_purchase_order :: "framework \<Rightarrow> sales_order \<Rightarrow> js_error + po_dialog" where
  "make_purchase_order fw so =
     (let pending_items =
            list_ex (\<lambda>item. flt (stock_qty item) - flt (ordered_qty item) > 0) (so_items so)
      in if \<not> pending_items then Inl (Thrown all_ordered)
         else Inr \<lparr>dialog_title = ''Select Items'', items_for_po = po_items fw so\<rparr>)"

section \<open>Concrete documents\<close>

text \<open>
  A framework that rounds half up, formats a date as it is stored and divides exactly;
  and small documents on which the theorems below are instantiated.
\<close>

definition fw0 :: framework where
  "fw0 = \<lparr>round_to = (\<lambda>d x. of_int \<lfloor>x * 10 ^ d + 1 / 2\<rfloor> / 10 ^ d),
          precision = (\<lambda>f. Some 2),
          format_date = (\<lambda>s. s),
          add_months = (\<lambda>s m. s),
          toFixed2 = (\<lambda>x. []),
          divide = (\<lambda>x y. x / y)\<rparr>"

definition book0 :: finance_book where
  "book0 = \<lparr>depreciation_method = ''Manual'', depreciation_start_date = ''2024-01-31'',
            frequency_of_depreciation = 12, total_number_of_depreciations = 3,
            expected_value_after_useful_life = 100, salvage_value_percentage = 10,
            rate_of_depreciation = 0\<rparr>"

definition rows0 :: "schedule_row list" where
  "rows0 =
     [\<lparr>finance_book_id = 1, schedule_date = ''2024-01-31'', depreciation_amount = Some 300,
       accumulated_depreciation_amount = 300, journal_entry = ''JV-1''\<rparr>,
      \<lparr>finance_book_id = 1, schedule_date = ''2024-06-30'', depreciation_amount = Some 50,
       accumulated_depreciation_amount = 350, journal_entry = []\<rparr>,
      \<lparr>finance_book_id = 1, schedule_date = ''2025-01-31'', depreciation_amount = None,
       accumulated_depreciation_amount = 350, journal_entry = []\<rparr>,
      \<lparr>finance_book_id = 1, schedule_date = ''2026-01-31'', depreciation_amount = Some 250,
       accumulated_depreciation_amount = 600, journal_entry = []\<rparr>]"

definition asset0 :: asset_doc where
  "asset0 =
     \<lparr>docstatus = 1, status = ''Submitted'', item_code = ''Laptop'', company = ''ACME'',
      purchase_receipt = [], purchase_invoice = [], purchase_date = ''2023-01-31'',
      available_for_use_date = ''2023-02-01'', disposal_date = ''2026-03-01'',
      creation = ''2023-01-31 10:00:00'', is_existing_asset = False,
      is_composite_asset = False, calculate_depreciation = True,
      maintenance_required = False, maintenance_schedule = [], capitalized_in = [],
      depr_entry_posting_status = [], gross_purchase_amount = 1000,
      purchase_receipt_amount = 1000, asset_quantity = 1,
      opening_accumulated_depreciation = Some 100, cost_center = ''Main'',
      location = ''Office'', finance_books = [book0], schedules = rows0\<rparr>"

text \<open>
  An asset with a second, straight-line finance book, to which the second schedule row
  belongs.
\<close>

definition asset2 :: asset_doc where
  "asset2 =
     asset0\<lparr>finance_books := [book0, book0\<lparr>depreciation_method := ''Straight Line''\<rparr>],
            schedules := rows0[1 := (rows0 ! 1)\<lparr>finance_book_id := 2\<rparr>]\<rparr>"

text \<open>
  The doubles nearest to 0.1, 0.2 and 0.3, and an asset whose opening accumulated
  depreciation and whose two depreciation amounts they are.
\<close>

definition d01 :: number where "d01 = 3602879701896397 / 2 ^ 55"

definition d02 :: number where "d02 = 3602879701896397 / 2 ^ 54"

definition d03 :: number where "d03 = 5404319552844595 / 2 ^ 54"

definition asset3 :: asset_doc where
  "asset3 =
     asset0\<lparr>opening_accumulated_depreciation := Some d01,
            schedules :=
              [\<lparr>finance_book_id = 1, schedule_date = ''2024-01-31'',
                depreciation_amount = Some d02, accumulated_depreciation_amount = 0,
                journal_entry = []\<rparr>,
               \<lparr>finance_book_id = 1, schedule_date = ''2025-01-31'',
                depreciation_amount = Some d03, accumulated_depreciation_amount = 0,
                journal_entry = []\<rparr>]\<rparr>"

definition form0 :: asset_form where
  "form0 =
     \<lparr>doc = asset0, reqd = (\<lambda>f. False), read_only = (\<lambda>f. False),
      from_set_salvage_value_percentage_or_expected_value_after_useful_life = False,
      dont_change_rate = False, msgprints = [], requests = []\<rparr>"

text \<open>A finance-book row whose rate of depreciation is 25.\<close>

definition book25 :: finance_book where
  "book25 = book0\<lparr>rate_of_depreciation := 25\<rparr>"

definition form1 :: asset_form where
  "form1 = form0\<lparr>doc := asset0\<lparr>purchase_receipt := ''PR-1''\<rparr>\<rparr>"

definition sold0 :: asset_doc where
  "sold0 = asset0\<lparr>status := ''Sold''\<rparr>"

definition receipt0 :: purchase_doc where
  "receipt0 =
     \<lparr>pd_company = ''ACME'', bill_date = [], posting_date_pd = ''2023-01-15'',
      pd_cost_center = ''Main'',
      items = [\<lparr>pi_item_code = ''Desk'', qty = 2, valuation_rate = 150,
                pi_cost_center = ''Main'', asset_location = []\<rparr>]\<rparr>"

definition order0 :: sales_order where
  "order0 =
     \<lparr>so_docstatus = 1, so_status = ''To Deliver and Bill'', per_delivered = Some 40,
      per_billed = Some 100, per_picked = None, order_type = ''Sales'',
      skip_delivery_note = False, is_internal_customer = False, auto_repeat = [],
      inter_company_order_reference = [], so_company = ''ACME'', represents_company = [],
      so_items =
        [\<lparr>so_name = ''row1'', so_item_name = ''Desk'', so_item_code = ''Desk'', uom = ''Nos'',
          supplier = [], so_qty = 5, stock_qty = Some 5, ordered_qty = Some 5,
          delivered_qty = Some 2, conversion_factor = Some 1, delivered_by_supplier = 0\<rparr>,
         \<lparr>so_name = ''row2'', so_item_name = ''Chair'', so_item_code = ''Chair'', uom = ''Nos'',
          supplier = [], so_qty = 4, stock_qty = Some 4, ordered_qty = Some 1,
          delivered_qty = None, conversion_factor = Some 1, delivered_by_supplier = 0\<rparr>],
      packed_items = []\<rparr>"

definition env0 :: so_env where
  "env0 = \<lparr>has_perm_submit = True, over_billing_allowance = 0\<rparr>"

section \<open>Properties\<close>

subsection \<open>TaxJar Settings\<close>

text \<open>
  Claim C10. After the \<open>is_sandbox\<close> handler of TaxJar Settings, \<open>api_key\<close> is required
  if and only if \<open>is_sandbox\<close> is unset and \<open>sandbox_api_key\<close> if and only if it is set,
  so exactly one of the two is required; the requiredness of every other field, and the
  document, are as before.
\<close>

theorem is_sandbox_reqd:
  "reqd_of (is_sandbox_handler frm) ''api_key'' = (is_sandbox frm = 0) \<and>
   reqd_of (is_sandbox_handler frm) ''sandbox_api_key'' = (is_sandbox frm \<noteq> 0) \<and>
   reqd_of (is_sandbox_handler frm) ''api_key''
     \<noteq> reqd_of (is_sandbox_handler frm) ''sandbox_api_key'' \<and>
   (\<forall>f. f \<noteq> ''api_key'' \<and> f \<noteq> ''sandbox_api_key'' \<longrightarrow>
        reqd_of (is_sandbox_handler frm) f = reqd_of frm f) \<and>
   is_sandbox (is_sandbox_handler frm) = is_sandbox frm"
  by (simp add: is_sandbox_handler_def taxjar_toggle_reqd_def)

theorem is_sandbox_reqd_witness:
  "reqd_of (is_sandbox_handler
       \<lparr>is_sandbox = 1, reqd_of = (\<lambda>f. f = ''api_key'' \<or> f = ''company'')\<rparr>)
     ''api_key'' = False \<and>
   reqd_of (is_sandbox_handler
       \<lparr>is_sandbox = 1, reqd_of = (\<lambda>f. f = ''api_key'' \<or> f = ''company'')\<rparr>)
     ''sandbox_api_key'' = True \<and>
   ''company'' \<noteq> ''api_key'' \<and> ''company'' \<noteq> ''sandbox_api_key'' \<and>
   reqd_of (is_sandbox_handler
       \<lparr>is_sandbox = 1, reqd_of = (\<lambda>f. f = ''api_key'' \<or> f = ''company'')\<rparr>)
     ''company'' = True"
  using is_sandbox_reqd
    [of "\<lparr>is_sandbox = 1, reqd_of = (\<lambda>f. f = ''api_key'' \<or> f = ''company'')\<rparr>"]
  by simp

subsection \<open>Accumulated depreciation\<close>

lemma length_accumulate: "length (accumulate add fbid acc rows) = length rows"
  by (induction rows arbitrary: acc) (simp_all add: Let_def)

lemma accumulate_nth:
  "i < length rows \<Longrightarrow>
   accumulate add fbid acc rows ! i =
     (if finance_book_id (rows ! i) = fbid
      then (rows ! i)\<lparr>accumulated_depreciation_amount := running_total add acc fbid rows i\<rparr>
      else rows ! i)"
proof (induction rows arbitrary: acc i)
  case Nil
  then show ?case by simp
next
  case (Cons row rows)
  show ?case
  proof (cases i)
    case 0
    then show ?thesis by (simp add: Let_def running_total_def amounts_upto_def)
  next
    case (Suc j)
    with Cons.prems have j: "j < length rows" by simp
    show ?thesis using Cons.IH [OF j] Suc
      by (simp add: Let_def running_total_def amounts_upto_def)
  qed
qed

text \<open>With an exact addition the running total is the start plus the sum.\<close>

lemma foldl_plus: "foldl (+) (a :: number) xs = a + sum_list xs"
  by (induction xs arbitrary: a) (simp_all add: add.assoc)

lemma running_total_exact:
  "running_total (+) acc fbid rows i = acc + depreciation_upto fbid rows i"
  by (simp add: running_total_def depreciation_upto_def foldl_plus)

text \<open>
  Claim C1, as amended. Let the finance book at index \<open>finance_book_id - 1\<close> exist. If
  its depreciation method is Manual, \<open>set_accumulated_depreciation\<close> returns a document
  with as many schedule rows, in which every row of that \<open>finance_book_id\<close> has as
  \<open>accumulated_depreciation_amount\<close> the running total that starts from the opening
  accumulated depreciation and adds to it, one after the other in list order and by the
  addition of JavaScript numbers, the depreciation amounts of the rows of that
  \<open>finance_book_id\<close> up to and including it. If the method is not Manual, the document
  is returned as it was. This holds whatever the addition is.
\<close>

theorem set_accumulated_depreciation_manual:
  assumes "0 < fbid" and "fbid \<le> int (length (finance_books d))"
  shows "(depreciation_method (finance_books d ! nat (fbid - 1)) = ''Manual'' \<longrightarrow>
          (\<exists>d'. set_accumulated_depreciation add d fbid = Inr d' \<and>
             length (schedules d') = length (schedules d) \<and>
             (\<forall>i < length (schedules d).
                finance_book_id (schedules d ! i) = fbid \<longrightarrow>
                accumulated_depreciation_amount (schedules d' ! i) =
                  running_total add (flt (opening_accumulated_depreciation d)) fbid
                    (schedules d) i))) \<and>
         (depreciation_method (finance_books d ! nat (fbid - 1)) \<noteq> ''Manual'' \<longrightarrow>
          set_accumulated_depreciation add d fbid = Inr d)"
  using assms
  by (simp add: set_accumulated_depreciation_def Let_def length_accumulate accumulate_nth)

theorem set_accumulated_depreciation_manual_witness:
  "(0::int) < 1 \<and> (1::int) \<le> int (length (finance_books asset3)) \<and>
   depreciation_method (finance_books asset3 ! nat (1 - 1)) = ''Manual'' \<and>
   (\<exists>d'. set_accumulated_depreciation double_add asset3 1 = Inr d' \<and>
      (1::nat) < length (schedules asset3) \<and>
      finance_book_id (schedules asset3 ! 1) = 1 \<and>
      accumulated_depreciation_amount (schedules d' ! 1) = 5404319552844596 / 2 ^ 53) \<and>
   (0::int) < 2 \<and> (2::int) \<le> int (length (finance_books asset2)) \<and>
   depreciation_method (finance_books asset2 ! nat (2 - 1)) \<noteq> ''Manual'' \<and>
   set_accumulated_depreciation double_add asset2 2 = Inr asset2"
proof -
  have b: "finance_books asset3 = [book0]"
    and o: "opening_accumulated_depreciation asset3 = Some d01"
    and b2: "finance_books asset2 = [book0, book0\<lparr>depreciation_method := ''Straight Line''\<rparr>]"
    by (simp_all add: asset3_def asset2_def asset0_def)
  have m: "depreciation_method (finance_books asset3 ! nat (1 - 1)) = ''Manual''"
    by (simp add: b book0_def)
  have n: "depreciation_method (finance_books asset2 ! nat (2 - 1)) \<noteq> ''Manual''"
    by (simp add: b2)
  have u: "running_total double_add (flt (opening_accumulated_depreciation asset3)) 1
             (schedules asset3) 1 = 5404319552844596 / 2 ^ 53"
    by code_simp
  have r: "(1::nat) < length (schedules asset3) \<and> finance_book_id (schedules asset3 ! 1) = 1"
    by (simp add: asset3_def)
  from set_accumulated_depreciation_manual [of 1 asset3 double_add] m
  obtain d' where d': "set_accumulated_depreciation double_add asset3 1 = Inr d'"
    and acc: "\<forall>i < length (schedules asset3).
                finance_book_id (schedules asset3 ! i) = 1 \<longrightarrow>
                accumulated_depreciation_amount (schedules d' ! i) =
                  running_total double_add (flt (opening_accumulated_depreciation asset3)) 1
                    (schedules asset3) i"
    by (auto simp: b)
  from acc [THEN spec, of 1] r u
  have "accumulated_depreciation_amount (schedules d' ! 1) = 5404319552844596 / 2 ^ 53"
    by simp
  moreover have "set_accumulated_depreciation double_add asset2 2 = Inr asset2"
    using set_accumulated_depreciation_manual [of 2 asset2 double_add] n by (simp add: b2)
  ultimately show ?thesis using m n r d' by (simp add: b b2)
qed

text \<open>
  The claim as first stated has the amount equal the opening accumulated depreciation
  plus the sum of the depreciation amounts. On the doubles nearest to 0.1 (opening), 0.2
  and 0.3 the second row gets (0.1 + 0.2) + 0.3, which JavaScript prints as
  0.6000000000000001. That is neither the sum of the three numbers, nor the opening
  added to the sum 0.2 + 0.3 of the amounts, which is the double JavaScript prints as 0.6.
\<close>

theorem running_total_not_sum_counterexample:
  "accumulated_amounts double_add asset3 1
     = [5404319552844596 / 2 ^ 54, 5404319552844596 / 2 ^ 53] \<and>
   accumulated_amounts double_add asset3 1 ! 1
     \<noteq> flt (opening_accumulated_depreciation asset3)
         + depreciation_upto 1 (schedules asset3) 1 \<and>
   accumulated_amounts double_add asset3 1 ! 1
     \<noteq> double_add (flt (opening_accumulated_depreciation asset3))
          (foldl double_add 0 (amounts_upto 1 (schedules asset3) 1)) \<and>
   double_add (flt (opening_accumulated_depreciation asset3))
     (foldl double_add 0 (amounts_upto 1 (schedules asset3) 1)) = 5404319552844595 / 2 ^ 53"
  by code_simp

subsection \<open>The asset-value chart\<close>

text \<open>
  Claim C2, as amended. For every Asset with \<open>calculate_depreciation\<close> set and at most
  one finance book, and with a finance book when \<open>opening_accumulated_depreciation\<close> is
  a number other than 0, \<open>setup_chart\<close> renders a graph. After the leading points (the
  purchase, and the opening point when there is one), schedule row \<open>i\<close> contributes its
  formatted \<open>schedule_date\<close> and the value \<open>gross_purchase_amount\<close> minus its
  \<open>accumulated_depreciation_amount\<close>, rounded to the precision of
  \<open>gross_purchase_amount\<close>, except that a row without a \<open>journal_entry\<close> contributes
  \<open>null\<close> when the status is Scrapped or Sold; and when the status is Scrapped or Sold,
  the last point is the \<open>disposal_date\<close> with value 0.
\<close>

theorem setup_chart_schedule_series:
  assumes "calculate_depreciation d" and "length (finance_books d) \<le> 1"
    and "truthy_num (opening_accumulated_depreciation d) \<longrightarrow> finance_books d \<noteq> []"
  shows "\<exists>g k. setup_chart fw depr_entries d = Inr (Some g) \<and>
           k = (if truthy_num (opening_accumulated_depreciation d) then 2 else 1) \<and>
           length (graph_values g) = k + length (schedules d) + (if disposed d then 1 else 0) \<and>
           length (labels g) = length (graph_values g) \<and>
           (\<forall>i < length (schedules d).
              labels g ! (k + i) = format_date fw (schedule_date (schedules d ! i)) \<and>
              graph_values g ! (k + i) =
                (if \<not> truthy (journal_entry (schedules d ! i)) \<and> disposed d then None
                 else Some (flt_prec fw
                        (gross_purchase_amount d
                           - accumulated_depreciation_amount (schedules d ! i))
                        (precision fw ''gross_purchase_amount'')))) \<and>
           (disposed d \<longrightarrow>
              last (labels g) = format_date fw (disposal_date d) \<and>
              last (graph_values g) = Some 0)"
proof (cases "truthy_num (opening_accumulated_depreciation d)")
  case True
  with assms(3) obtain fb fbs where fb: "finance_books d = fb # fbs"
    by (cases "finance_books d") auto
  show ?thesis using assms(1,2) True fb
    by (simp add: setup_chart_def Let_def nth_append schedule_value_def)
next
  case False
  show ?thesis using assms(1,2) False
    by (simp add: setup_chart_def Let_def nth_append schedule_value_def)
qed

lemma sold0_simps:
  "calculate_depreciation sold0" "finance_books sold0 = [book0]" "schedules sold0 = rows0"
  "opening_accumulated_depreciation sold0 = Some 100" "status sold0 = ''Sold''"
  "gross_purchase_amount sold0 = 1000" "disposal_date sold0 = ''2026-03-01''"
  by (simp_all add: sold0_def asset0_def)

theorem setup_chart_schedule_series_witness:
  "calculate_depreciation sold0 \<and> length (finance_books sold0) \<le> 1 \<and>
   finance_books sold0 \<noteq> [] \<and>
   (\<exists>g. setup_chart fw0 [] sold0 = Inr (Some g) \<and>
      length (graph_values g) = 7 \<and>
      graph_values g ! (2 + 0) = Some 700 \<and>
      graph_values g ! (2 + 1) = None \<and>
      labels g ! (2 + 1) = ''2024-06-30'' \<and>
      last (labels g) = ''2026-03-01'' \<and>
      last (graph_values g) = Some 0)"
proof -
  have h: "calculate_depreciation sold0" "length (finance_books sold0) \<le> 1"
    "finance_books sold0 \<noteq> []" "truthy_num (opening_accumulated_depreciation sold0)"
    "disposed sold0"
    by (simp_all add: sold0_simps truthy_num_def disposed_def)
  have r: "flt_prec fw0 (1000 - 300) (precision fw0 ''gross_purchase_amount'') = 700"
    by code_simp
  have f: "format_date fw0 = (\<lambda>s. s)" by (simp add: fw0_def)
  from setup_chart_schedule_series [of sold0 fw0 "[]"] h
  obtain g where g: "setup_chart fw0 [] sold0 = Inr (Some g)"
    and len: "length (graph_values g) = 2 + length (schedules sold0) + 1"
    and rows: "\<forall>i < length (schedules sold0).
              labels g ! (2 + i) = format_date fw0 (schedule_date (schedules sold0 ! i)) \<and>
              graph_values g ! (2 + i) =
                (if \<not> truthy (journal_entry (schedules sold0 ! i)) \<and> disposed sold0 then None
                 else Some (flt_prec fw0
                        (gross_purchase_amount sold0
                           - accumulated_depreciation_amount (schedules sold0 ! i))
                        (precision fw0 ''gross_purchase_amount'')))"
    and fin: "last (labels g) = format_date fw0 (disposal_date sold0)"
      "last (graph_values g) = Some 0"
    by auto
  from rows [THEN spec, of 0] have "graph_values g ! (2 + 0) = Some 700"
    using r h(5) by (simp add: sold0_simps rows0_def truthy_def)
  moreover from rows [THEN spec, of 1]
  have "graph_values g ! (2 + 1) = None \<and> labels g ! (2 + 1) = ''2024-06-30''"
    using h(5) f by (simp add: sold0_simps rows0_def truthy_def)
  moreover from len have "length (graph_values g) = 7"
    by (simp add: sold0_simps rows0_def)
  ultimately show ?thesis using g fin h f by (simp add: sold0_simps)
qed

text \<open>
  The claim as first stated admits an Asset with no finance book: with
  \<open>calculate_depreciation\<close> set and an opening accumulated depreciation, the handler
  throws and renders nothing.
\<close>

theorem setup_chart_no_book_counterexample:
  "calculate_depreciation (asset0\<lparr>finance_books := []\<rparr>) \<and>
   length (finance_books (asset0\<lparr>finance_books := []\<rparr>)) \<le> 1 \<and>
   setup_chart fw0 [] (asset0\<lparr>finance_books := []\<rparr>) = Inl TypeError"
  by (simp add: setup_chart_def asset0_def truthy_num_def)

text \<open>
  Claim C9. With more than one finance book, \<open>setup_chart\<close> returns without a graph,
  whatever the schedule rows are; a graph is rendered only for an Asset with at most one
  finance book.
\<close>

theorem setup_chart_many_books:
  "(length (finance_books d) > 1 \<longrightarrow>
      (\<forall>rows. setup_chart fw depr_entries (d\<lparr>schedules := rows\<rparr>) = Inr None)) \<and>
   (\<forall>g. setup_chart fw depr_entries d = Inr (Some g) \<longrightarrow> length (finance_books d) \<le> 1)"
  by (auto simp: setup_chart_def)

theorem setup_chart_many_books_witness:
  "length (finance_books (asset0\<lparr>finance_books := [book0, book0]\<rparr>)) > 1 \<and>
   setup_chart fw0 [] (asset0\<lparr>finance_books := [book0, book0]\<rparr>\<lparr>schedules := []\<rparr>) = Inr None \<and>
   (\<exists>g. setup_chart fw0 [] (asset0\<lparr>opening_accumulated_depreciation := None\<rparr>) = Inr (Some g)) \<and>
   length (finance_books (asset0\<lparr>opening_accumulated_depreciation := None\<rparr>)) \<le> 1"
proof -
  have g: "\<exists>g. setup_chart fw0 [] (asset0\<lparr>opening_accumulated_depreciation := None\<rparr>) = Inr (Some g)"
    by (simp add: setup_chart_def asset0_def truthy_num_def)
  have l: "length (finance_books (asset0\<lparr>finance_books := [book0, book0]\<rparr>)) > 1" by simp
  from setup_chart_many_books [of "asset0\<lparr>finance_books := [book0, book0]\<rparr>" fw0 "[]"] l
  have a: "setup_chart fw0 [] (asset0\<lparr>finance_books := [book0, book0]\<rparr>\<lparr>schedules := []\<rparr>) = Inr None"
    by blast
  from setup_chart_many_books [of "asset0\<lparr>opening_accumulated_depreciation := None\<rparr>" fw0 "[]"] g
  have b: "length (finance_books (asset0\<lparr>opening_accumulated_depreciation := None\<rparr>)) \<le> 1"
    by blast
  from g l a b show ?thesis by blast
qed

subsection \<open>Status values\<close>

lemma schedule_value_status:
  assumes "(s' = ''Scrapped'') = (status d = ''Scrapped'')" "(s' = ''Sold'') = (status d = ''Sold'')"
  shows "schedule_value fw (d\<lparr>status := s'\<rparr>) = schedule_value fw d"
proof -
  have "disposed (d\<lparr>status := s'\<rparr>) = disposed d"
    using assms by (simp add: disposed_def)
  then show ?thesis
    by (simp add: schedule_value_def Let_def fun_eq_iff)
qed

lemma setup_chart_status:
  assumes "(s' = ''Scrapped'') = (status d = ''Scrapped'')" "(s' = ''Sold'') = (status d = ''Sold'')"
  shows "setup_chart fw depr_entries (d\<lparr>status := s'\<rparr>) = setup_chart fw depr_entries d"
proof -
  have "disposed (d\<lparr>status := s'\<rparr>) = disposed d"
    using assms by (simp add: disposed_def)
  then show ?thesis
    by (simp add: setup_chart_def Let_def schedule_value_status [OF assms] split: list.splits)
qed

lemma refresh_buttons_status:
  assumes "(s' = ''Submitted'') = (status d = ''Submitted'')"
    "(s' = ''Partially Depreciated'') = (status d = ''Partially Depreciated'')"
    "(s' = ''Fully Depreciated'') = (status d = ''Fully Depreciated'')"
    "(s' = ''Scrapped'') = (status d = ''Scrapped'')"
  shows "refresh_buttons (d\<lparr>status := s'\<rparr>) = refresh_buttons d"
  using assms by (simp add: refresh_buttons_def)

text \<open>
  Claim C6, as amended. Every status value the form script compares the status with lies
  in the set of Draft, Submitted, Partially Depreciated, Scrapped, Sold and Fully
  Depreciated; and the buttons \<open>refresh\<close> offers and the chart \<open>setup_chart\<close> draws are
  determined by which of the compared values, if any, the status equals: two documents
  that differ in their status only, and agree on each of these comparisons, get the same
  buttons and the same chart.
\<close>

theorem status_branches:
  "set branch_statuses \<subseteq> set (''Partially Depreciated'' # spec_statuses) \<and>
   ((\<forall>s \<in> set branch_statuses. (s' = s) = (status d = s)) \<longrightarrow>
      refresh_buttons (d\<lparr>status := s'\<rparr>) = refresh_buttons d \<and>
      setup_chart fw depr_entries (d\<lparr>status := s'\<rparr>) = setup_chart fw depr_entries d)"
proof (intro conjI impI)
  show "set branch_statuses \<subseteq> set (''Partially Depreciated'' # spec_statuses)"
    by (simp add: branch_statuses_def spec_statuses_def)
next
  assume a: "\<forall>s \<in> set branch_statuses. (s' = s) = (status d = s)"
  then show "refresh_buttons (d\<lparr>status := s'\<rparr>) = refresh_buttons d"
    by (intro refresh_buttons_status) (simp_all add: branch_statuses_def)
  from a show "setup_chart fw depr_entries (d\<lparr>status := s'\<rparr>) = setup_chart fw depr_entries d"
    by (intro setup_chart_status) (simp_all add: branch_statuses_def)
qed

theorem status_branches_witness:
  "list_all (\<lambda>s. (''Out of Order'' = s) = (status (asset0\<lparr>status := ''In Maintenance''\<rparr>) = s))
     branch_statuses \<and>
   refresh_buttons (asset0\<lparr>status := ''In Maintenance''\<rparr>\<lparr>status := ''Out of Order''\<rparr>) =
     refresh_buttons (asset0\<lparr>status := ''In Maintenance''\<rparr>) \<and>
   setup_chart fw0 [] (asset0\<lparr>status := ''In Maintenance''\<rparr>\<lparr>status := ''Out of Order''\<rparr>) =
     setup_chart fw0 [] (asset0\<lparr>status := ''In Maintenance''\<rparr>)"
proof -
  have h: "\<forall>s \<in> set branch_statuses.
             (''Out of Order'' = s) = (status (asset0\<lparr>status := ''In Maintenance''\<rparr>) = s)"
    by (simp add: branch_statuses_def)
  then have "list_all (\<lambda>s. (''Out of Order'' = s) = (status (asset0\<lparr>status := ''In Maintenance''\<rparr>) = s))
     branch_statuses"
    by (simp only: list_all_iff)
  with h status_branches [of "''Out of Order''" "asset0\<lparr>status := ''In Maintenance''\<rparr>" fw0 "[]"]
  show ?thesis by blast
qed

text \<open>
  The enumeration of five values misses Partially Depreciated, which \<open>refresh\<close> tells
  from a status that is no member either.
\<close>

theorem status_outside_enumeration_counterexample:
  "''Partially Depreciated'' \<in> set branch_statuses \<and>
   ''Partially Depreciated'' \<notin> set spec_statuses \<and>
   ''In Maintenance'' \<notin> set spec_statuses \<and>
   refresh_buttons (asset0\<lparr>status := ''Partially Depreciated''\<rparr>)
     \<noteq> refresh_buttons (asset0\<lparr>status := ''In Maintenance''\<rparr>)"
  by (simp add: branch_statuses_def spec_statuses_def refresh_buttons_def asset0_def)

subsection \<open>Purchase references\<close>

lemma toggle_reference_doc_frame:
  "doc (toggle_reference_doc frm) = doc frm"
  "msgprints (toggle_reference_doc frm) = msgprints frm"
  "requests (toggle_reference_doc frm) = requests frm"
  by (simp_all add: toggle_reference_doc_def toggle_reqd_def set_read_only_def)

lemma purchase_receipt_handler_unset:
  "\<not> truthy (purchase_receipt (doc frm)) \<Longrightarrow>
   purchase_receipt_handler frm = toggle_reference_doc frm"
  by (subst purchase_receipt_handler.simps) (simp add: Let_def toggle_reference_doc_frame)

lemma purchase_invoice_handler_unset:
  "\<not> truthy (purchase_invoice (doc frm)) \<Longrightarrow>
   purchase_invoice_handler frm = toggle_reference_doc frm"
  by (subst purchase_invoice_handler.simps) (simp add: Let_def toggle_reference_doc_frame)

lemma purchase_receipt_handler_no_item_code:
  "truthy (purchase_receipt (doc frm)) \<Longrightarrow> \<not> truthy (item_code (doc frm)) \<Longrightarrow>
   purchase_receipt_handler frm =
     frappe_msgprint not_allowed
       (toggle_reference_doc
          ((toggle_reference_doc frm)\<lparr>doc := (doc frm)\<lparr>purchase_receipt := []\<rparr>\<rparr>))"
  by (subst purchase_receipt_handler.simps)
     (simp add: Let_def toggle_reference_doc_frame purchase_receipt_handler_unset truthy_def)

lemma purchase_invoice_handler_no_item_code:
  "truthy (purchase_invoice (doc frm)) \<Longrightarrow> \<not> truthy (item_code (doc frm)) \<Longrightarrow>
   purchase_invoice_handler frm =
     frappe_msgprint not_allowed
       (toggle_reference_doc
          ((toggle_reference_doc frm)\<lparr>doc := (doc frm)\<lparr>purchase_invoice := []\<rparr>\<rparr>))"
  by (subst purchase_invoice_handler.simps)
     (simp add: Let_def toggle_reference_doc_frame purchase_invoice_handler_unset truthy_def)

lemma purchase_receipt_handler_item_code:
  "truthy (item_code (doc frm)) \<Longrightarrow>
   purchase_receipt_handler frm =
     (if truthy (purchase_receipt (doc frm))
      then send (Get_doc ''Purchase Receipt'' (purchase_receipt (doc frm)))
             (toggle_reference_doc frm)
      else toggle_reference_doc frm)"
  by (subst purchase_receipt_handler.simps) (simp add: Let_def toggle_reference_doc_frame)

lemma purchase_invoice_handler_item_code:
  "truthy (item_code (doc frm)) \<Longrightarrow>
   purchase_invoice_handler frm =
     (if truthy (purchase_invoice (doc frm))
      then send (Get_doc ''Purchase Invoice'' (purchase_invoice (doc frm)))
             (toggle_reference_doc frm)
      else toggle_reference_doc frm)"
  by (subst purchase_invoice_handler.simps) (simp add: Let_def toggle_reference_doc_frame)

lemma receipt_without_item_code:
  assumes "truthy (purchase_receipt (doc frm))" "\<not> truthy (item_code (doc frm))"
  shows "doc (purchase_receipt_handler frm) = (doc frm)\<lparr>purchase_receipt := []\<rparr> \<and>
         msgprints (purchase_receipt_handler frm) = msgprints frm @ [not_allowed] \<and>
         requests (purchase_receipt_handler frm) = requests frm"
  unfolding purchase_receipt_handler_no_item_code [OF assms]
  by (simp add: toggle_reference_doc_frame frappe_msgprint_def)

lemma receipt_with_item_code:
  assumes "truthy (item_code (doc frm))"
  shows "doc (purchase_receipt_handler frm) = doc frm \<and>
         msgprints (purchase_receipt_handler frm) = msgprints frm \<and>
         requests (purchase_receipt_handler frm) =
           requests frm @ (if truthy (purchase_receipt (doc frm))
                           then [Get_doc ''Purchase Receipt'' (purchase_receipt (doc frm))]
                           else [])"
  unfolding purchase_receipt_handler_item_code [OF assms]
  by (simp add: toggle_reference_doc_frame send_def)

lemma invoice_without_item_code:
  assumes "truthy (purchase_invoice (doc frm))" "\<not> truthy (item_code (doc frm))"
  shows "doc (purchase_invoice_handler frm) = (doc frm)\<lparr>purchase_invoice := []\<rparr> \<and>
         msgprints (purchase_invoice_handler frm) = msgprints frm @ [not_allowed] \<and>
         requests (purchase_invoice_handler frm) = requests frm"
  unfolding purchase_invoice_handler_no_item_code [OF assms]
  by (simp add: toggle_reference_doc_frame frappe_msgprint_def)

lemma invoice_with_item_code:
  assumes "truthy (item_code (doc frm))"
  shows "doc (purchase_invoice_handler frm) = doc frm \<and>
         msgprints (purchase_invoice_handler frm) = msgprints frm \<and>
         requests (purchase_invoice_handler frm) =
           requests frm @ (if truthy (purchase_invoice (doc frm))
                           then [Get_doc ''Purchase Invoice'' (purchase_invoice (doc frm))]
                           else [])"
  unfolding purchase_invoice_handler_item_code [OF assms]
  by (simp add: toggle_reference_doc_frame send_def)

text \<open>
  Claim C4. When \<open>purchase_receipt\<close> (respectively \<open>purchase_invoice\<close>) is set and
  \<open>item_code\<close> is empty, the handler of the field leaves the document with that
  reference cleared and nothing else changed, shows the one message
  ``Please select Item Code first'', and sends no request. When \<open>item_code\<close> is set, the
  handler shows no message and leaves the document as it is, reference included; it
  requests the purchase document when the reference is set.
\<close>

theorem purchase_reference_needs_item_code:
  "(truthy (purchase_receipt (doc frm)) \<and> \<not> truthy (item_code (doc frm)) \<longrightarrow>
      doc (purchase_receipt_handler frm) = (doc frm)\<lparr>purchase_receipt := []\<rparr> \<and>
      msgprints (purchase_receipt_handler frm) = msgprints frm @ [not_allowed] \<and>
      requests (purchase_receipt_handler frm) = requests frm) \<and>
   (truthy (item_code (doc frm)) \<longrightarrow>
      doc (purchase_receipt_handler frm) = doc frm \<and>
      msgprints (purchase_receipt_handler frm) = msgprints frm \<and>
      requests (purchase_receipt_handler frm) =
        requests frm @ (if truthy (purchase_receipt (doc frm))
                        then [Get_doc ''Purchase Receipt'' (purchase_receipt (doc frm))]
                        else [])) \<and>
   (truthy (purchase_invoice (doc frm)) \<and> \<not> truthy (item_code (doc frm)) \<longrightarrow>
      doc (purchase_invoice_handler frm) = (doc frm)\<lparr>purchase_invoice := []\<rparr> \<and>
      msgprints (purchase_invoice_handler frm) = msgprints frm @ [not_allowed] \<and>
      requests (purchase_invoice_handler frm) = requests frm) \<and>
   (truthy (item_code (doc frm)) \<longrightarrow>
      doc (purchase_invoice_handler frm) = doc frm \<and>
      msgprints (purchase_invoice_handler frm) = msgprints frm \<and>
      requests (purchase_invoice_handler frm) =
        requests frm @ (if truthy (purchase_invoice (doc frm))
                        then [Get_doc ''Purchase Invoice'' (purchase_invoice (doc frm))]
                        else []))"
  using receipt_without_item_code [of frm] receipt_with_item_code [of frm]
    invoice_without_item_code [of frm] invoice_with_item_code [of frm]
  by blast

theorem purchase_reference_needs_item_code_witness:
  "truthy (purchase_receipt (doc (form1\<lparr>doc := (doc form1)\<lparr>item_code := []\<rparr>\<rparr>))) \<and>
   \<not> truthy (item_code (doc (form1\<lparr>doc := (doc form1)\<lparr>item_code := []\<rparr>\<rparr>))) \<and>
   purchase_receipt (doc (purchase_receipt_handler (form1\<lparr>doc := (doc form1)\<lparr>item_code := []\<rparr>\<rparr>))) = [] \<and>
   msgprints (purchase_receipt_handler (form1\<lparr>doc := (doc form1)\<lparr>item_code := []\<rparr>\<rparr>)) = [not_allowed] \<and>
   requests (purchase_receipt_handler (form1\<lparr>doc := (doc form1)\<lparr>item_code := []\<rparr>\<rparr>)) = [] \<and>
   truthy (item_code (doc form1)) \<and>
   msgprints (purchase_receipt_handler form1) = [] \<and>
   requests (purchase_receipt_handler form1) = [Get_doc ''Purchase Receipt'' ''PR-1'']"
  using purchase_reference_needs_item_code [of form1]
    purchase_reference_needs_item_code [of "form1\<lparr>doc := (doc form1)\<lparr>item_code := []\<rparr>\<rparr>"]
  by (simp add: form1_def form0_def asset0_def truthy_def)

lemma clear_reference_receipt:
  "msgprints (clear_reference Purchase_Receipt frm) = msgprints frm \<and>
   requests (clear_reference Purchase_Receipt frm) = requests frm \<and>
   doc (clear_reference Purchase_Receipt frm) = (doc frm)\<lparr>purchase_receipt := []\<rparr>"
proof (cases "purchase_receipt (doc frm) = []")
  case True
  then have "(doc frm)\<lparr>purchase_receipt := []\<rparr> = doc frm" by simp
  with True show ?thesis by simp
next
  case False
  then show ?thesis
    by (simp add: purchase_receipt_handler_unset toggle_reference_doc_frame truthy_def)
qed

lemma clear_reference_invoice:
  "msgprints (clear_reference Purchase_Invoice frm) = msgprints frm \<and>
   requests (clear_reference Purchase_Invoice frm) = requests frm \<and>
   doc (clear_reference Purchase_Invoice frm) = (doc frm)\<lparr>purchase_invoice := []\<rparr>"
proof (cases "purchase_invoice (doc frm) = []")
  case True
  then have "(doc frm)\<lparr>purchase_invoice := []\<rparr> = doc frm" by simp
  with True show ?thesis by simp
next
  case False
  then show ?thesis
    by (simp add: purchase_invoice_handler_unset toggle_reference_doc_frame truthy_def)
qed

lemma set_values_from_purchase_doc_no_item:
  assumes "\<forall>item \<in> set (items purchase_doc). pi_item_code item \<noteq> item_code (doc frm)"
  shows "fst (set_values_from_purchase_doc dt purchase_doc frm) = Some TypeError \<and>
         msgprints (snd (set_values_from_purchase_doc dt purchase_doc frm)) =
           msgprints frm @ [invalid_doc dt] \<and>
         requests (snd (set_values_from_purchase_doc dt purchase_doc frm)) = requests frm \<and>
         gross_purchase_amount (doc (snd (set_values_from_purchase_doc dt purchase_doc frm))) =
           gross_purchase_amount (doc frm) \<and>
         purchase_receipt_amount (doc (snd (set_values_from_purchase_doc dt purchase_doc frm))) =
           purchase_receipt_amount (doc frm) \<and>
         asset_quantity (doc (snd (set_values_from_purchase_doc dt purchase_doc frm))) =
           asset_quantity (doc frm)"
proof -
  have none: "find (\<lambda>item. pi_item_code item = item_code (doc frm)) (items purchase_doc) = None"
    using assms by (simp add: find_None_iff)
  show ?thesis
  proof (cases dt)
    case Purchase_Receipt
    then show ?thesis using none
      by (simp add: set_values_from_purchase_doc_def Let_def clear_reference_receipt
            frappe_msgprint_def del: clear_reference.simps)
  next
    case Purchase_Invoice
    then show ?thesis using none
      by (simp add: set_values_from_purchase_doc_def Let_def clear_reference_invoice
            frappe_msgprint_def del: clear_reference.simps)
  qed
qed

text \<open>
  Claim C3. On the receipt \<open>receipt0\<close>, which does not hold the item of the form
  \<open>form1\<close>, \<open>set_values_from_purchase_doc\<close> clears the reference and shows the
  message, and then throws a TypeError instead of returning.
\<close>

theorem set_values_from_purchase_doc_throws:
  "find (\<lambda>item. pi_item_code item = item_code (doc form1)) (items receipt0) = None \<and>
   fst (set_values_from_purchase_doc Purchase_Receipt receipt0 form1) = Some TypeError \<and>
   msgprints (snd (set_values_from_purchase_doc Purchase_Receipt receipt0 form1)) =
     [invalid_doc Purchase_Receipt] \<and>
   purchase_receipt (doc (snd (set_values_from_purchase_doc Purchase_Receipt receipt0 form1))) = []"
  by (simp add: set_values_from_purchase_doc_def Let_def clear_reference_receipt
        frappe_msgprint_def form1_def form0_def asset0_def receipt0_def
        del: clear_reference.simps)

subsection \<open>Suppression flags\<close>

lemma set_depreciation_rate_flag:
  "set_depreciation_rate
     (frm\<lparr>from_set_salvage_value_percentage_or_expected_value_after_useful_life := b\<rparr>) row =
   (set_depreciation_rate frm row)
     \<lparr>from_set_salvage_value_percentage_or_expected_value_after_useful_life := b\<rparr>"
  by (simp add: set_depreciation_rate_def send_def)

lemma set_depreciation_rate_frame:
  "from_set_salvage_value_percentage_or_expected_value_after_useful_life
     (set_depreciation_rate frm row) =
   from_set_salvage_value_percentage_or_expected_value_after_useful_life frm"
  "dont_change_rate (set_depreciation_rate frm row) = dont_change_rate frm"
  "doc (set_depreciation_rate frm row) = doc frm"
  by (simp_all add: set_depreciation_rate_def send_def)

lemma flag_reset:
  "\<not> from_set_salvage_value_percentage_or_expected_value_after_useful_life frm \<Longrightarrow>
   frm\<lparr>from_set_salvage_value_percentage_or_expected_value_after_useful_life := False\<rparr> = frm"
  by simp

lemma salvage_value_percentage_handler_suppressed:
  "from_set_salvage_value_percentage_or_expected_value_after_useful_life frm \<Longrightarrow>
   salvage_value_percentage_handler fw (frm, row) = (frm, row)"
  by (simp add: salvage_value_percentage_handler.simps)

lemma expected_value_after_useful_life_handler_suppressed:
  "from_set_salvage_value_percentage_or_expected_value_after_useful_life frm \<Longrightarrow>
   expected_value_after_useful_life_handler fw (frm, row) = (set_depreciation_rate frm row, row)"
  by (simp add: expected_value_after_useful_life_handler.simps)

lemma set_salvage_expected_changed:
  "set_salvage_value_percentage_or_expected_value_after_useful_life fw (frm, row) pc True =
     (frm\<lparr>from_set_salvage_value_percentage_or_expected_value_after_useful_life := False\<rparr>,
      row\<lparr>salvage_value_percentage := new_salvage_value_percentage fw frm row\<rparr>)"
  by (simp add: set_salvage_value_percentage_or_expected_value_after_useful_life.simps Let_def
        salvage_value_percentage_handler_suppressed new_salvage_value_percentage_def)

lemma set_salvage_percentage_changed:
  "set_salvage_value_percentage_or_expected_value_after_useful_life fw (frm, row) True False =
     ((if expected_value_after_useful_life row = new_expected_value_after_useful_life fw frm row
       then frm
       else set_depreciation_rate frm
              (row\<lparr>expected_value_after_useful_life :=
                      new_expected_value_after_useful_life fw frm row\<rparr>))
        \<lparr>from_set_salvage_value_percentage_or_expected_value_after_useful_life := False\<rparr>,
      row\<lparr>expected_value_after_useful_life := new_expected_value_after_useful_life fw frm row\<rparr>)"
  by (simp add: set_salvage_value_percentage_or_expected_value_after_useful_life.simps Let_def
        expected_value_after_useful_life_handler_suppressed set_depreciation_rate_flag
        new_expected_value_after_useful_life_def)

lemma expected_value_after_useful_life_handler_run:
  "\<not> from_set_salvage_value_percentage_or_expected_value_after_useful_life frm \<Longrightarrow>
   expected_value_after_useful_life_handler fw (frm, row) =
     (set_depreciation_rate frm
        (row\<lparr>salvage_value_percentage := new_salvage_value_percentage fw frm row\<rparr>),
      row\<lparr>salvage_value_percentage := new_salvage_value_percentage fw frm row\<rparr>)"
  by (simp add: expected_value_after_useful_life_handler.simps set_salvage_expected_changed
        flag_reset)

lemma salvage_value_percentage_handler_run:
  "\<not> from_set_salvage_value_percentage_or_expected_value_after_useful_life frm \<Longrightarrow>
   salvage_value_percentage_handler fw (frm, row) =
     (if expected_value_after_useful_life row = new_expected_value_after_useful_life fw frm row
      then frm
      else set_depreciation_rate frm
             (row\<lparr>expected_value_after_useful_life :=
                     new_expected_value_after_useful_life fw frm row\<rparr>),
      row\<lparr>expected_value_after_useful_life := new_expected_value_after_useful_life fw frm row\<rparr>)"
  by (simp add: salvage_value_percentage_handler.simps set_salvage_percentage_changed
        flag_reset set_depreciation_rate_frame)

lemma expected_value_after_useful_life_handler_frame:
  "dont_change_rate (fst (expected_value_after_useful_life_handler fw (frm, row))) =
     dont_change_rate frm"
  by (cases "from_set_salvage_value_percentage_or_expected_value_after_useful_life frm")
     (simp_all add: expected_value_after_useful_life_handler_run
        expected_value_after_useful_life_handler_suppressed set_depreciation_rate_frame)

lemma rate_of_depreciation_handler_guarded:
  "dont_change_rate frm \<Longrightarrow>
   rate_of_depreciation_handler fw (frm, row) = (frm\<lparr>dont_change_rate := False\<rparr>, row)"
  by (simp add: rate_of_depreciation_handler_def)

lemma rate_of_depreciation_handler_clears:
  "\<not> dont_change_rate (fst (rate_of_depreciation_handler fw (frm, row)))"
  by (simp add: rate_of_depreciation_handler_def split_beta)

lemma set_depreciation_rate_callback_keeps_value:
  "expected_value_after_useful_life (snd (set_depreciation_rate_callback fw r_message (frm, row))) =
     expected_value_after_useful_life row"
  by (simp add: set_depreciation_rate_callback_def Let_def rate_of_depreciation_handler_guarded)

lemma set_depreciation_rate_callback_clears:
  "truthy_num r_message \<Longrightarrow>
   rate_of_depreciation row
     \<noteq> flt_prec fw (flt r_message) (precision fw ''rate_of_depreciation'') \<Longrightarrow>
   \<not> dont_change_rate (fst (set_depreciation_rate_callback fw r_message (frm, row)))"
  by (simp add: set_depreciation_rate_callback_def Let_def rate_of_depreciation_handler_guarded)

text \<open>
  What the handlers do under the modelled dispatch. Run with the flag unset, the
  \<open>expected_value_after_useful_life\<close> handler (respectively the
  \<open>salvage_value_percentage\<close> handler) updates the mirrored field once, leaves the
  field it was run for as it is, and ends with the flag unset; the mirrored handler,
  re-entered while the flag is set, changes nothing (\<open>salvage_value_percentage\<close>) or no
  field of the row (\<open>expected_value_after_useful_life\<close>). The callback of
  \<open>set_depreciation_rate\<close> never changes \<open>expected_value_after_useful_life\<close>; the
  \<open>rate_of_depreciation\<close> handler run under \<open>dont_change_rate\<close> only clears the flag,
  and the flag is unset after every run of that handler, so after a callback that
  changes the rate.
\<close>

lemma suppression_flags_effective:
  "(\<not> from_set_salvage_value_percentage_or_expected_value_after_useful_life frm \<longrightarrow>
      snd (expected_value_after_useful_life_handler fw (frm, row)) =
        row\<lparr>salvage_value_percentage := new_salvage_value_percentage fw frm row\<rparr> \<and>
      \<not> from_set_salvage_value_percentage_or_expected_value_after_useful_life
          (fst (expected_value_after_useful_life_handler fw (frm, row))) \<and>
      snd (salvage_value_percentage_handler fw (frm, row)) =
        row\<lparr>expected_value_after_useful_life := new_expected_value_after_useful_life fw frm row\<rparr> \<and>
      \<not> from_set_salvage_value_percentage_or_expected_value_after_useful_life
          (fst (salvage_value_percentage_handler fw (frm, row)))) \<and>
   (from_set_salvage_value_percentage_or_expected_value_after_useful_life frm \<longrightarrow>
      salvage_value_percentage_handler fw (frm, row) = (frm, row) \<and>
      snd (expected_value_after_useful_life_handler fw (frm, row)) = row) \<and>
   expected_value_after_useful_life (snd (set_depreciation_rate_callback fw r_message (frm, row))) =
     expected_value_after_useful_life row \<and>
   (dont_change_rate frm \<longrightarrow>
      rate_of_depreciation_handler fw (frm, row) = (frm\<lparr>dont_change_rate := False\<rparr>, row)) \<and>
   \<not> dont_change_rate (fst (rate_of_depreciation_handler fw (frm, row))) \<and>
   (truthy_num r_message \<and>
    rate_of_depreciation row
      \<noteq> flt_prec fw (flt r_message) (precision fw ''rate_of_depreciation'') \<longrightarrow>
      \<not> dont_change_rate (fst (set_depreciation_rate_callback fw r_message (frm, row))))"
proof -
  have a: "\<not> from_set_salvage_value_percentage_or_expected_value_after_useful_life frm \<longrightarrow>
      snd (expected_value_after_useful_life_handler fw (frm, row)) =
        row\<lparr>salvage_value_percentage := new_salvage_value_percentage fw frm row\<rparr> \<and>
      \<not> from_set_salvage_value_percentage_or_expected_value_after_useful_life
          (fst (expected_value_after_useful_life_handler fw (frm, row)))"
    by (simp add: expected_value_after_useful_life_handler_run set_depreciation_rate_frame)
  have b: "\<not> from_set_salvage_value_percentage_or_expected_value_after_useful_life frm \<longrightarrow>
      snd (salvage_value_percentage_handler fw (frm, row)) =
        row\<lparr>expected_value_after_useful_life := new_expected_value_after_useful_life fw frm row\<rparr> \<and>
      \<not> from_set_salvage_value_percentage_or_expected_value_after_useful_life
          (fst (salvage_value_percentage_handler fw (frm, row)))"
    by (simp add: salvage_value_percentage_handler_run set_depreciation_rate_frame)
  have c: "from_set_salvage_value_percentage_or_expected_value_after_useful_life frm \<longrightarrow>
      salvage_value_percentage_handler fw (frm, row) = (frm, row) \<and>
      snd (expected_value_after_useful_life_handler fw (frm, row)) = row"
    by (simp add: salvage_value_percentage_handler_suppressed
          expected_value_after_useful_life_handler_suppressed)
  from a b c show ?thesis
    using set_depreciation_rate_callback_keeps_value [of fw r_message frm row]
      rate_of_depreciation_handler_guarded [of frm fw row]
      rate_of_depreciation_handler_clears [of fw frm row]
      set_depreciation_rate_callback_clears [of r_message row fw frm]
    by blast
qed

text \<open>
  The callback relies on the \<open>rate_of_depreciation\<close> handler to clear
  \<open>dont_change_rate\<close>. When the reply is the rate the row has already, nothing is
  stored, no handler runs, and the flag stays set.
\<close>

lemma set_depreciation_rate_callback_stale:
  "truthy_num r_message \<Longrightarrow>
   rate_of_depreciation row
     = flt_prec fw (flt r_message) (precision fw ''rate_of_depreciation'') \<Longrightarrow>
   set_depreciation_rate_callback fw r_message (frm, row) =
     (frm\<lparr>dont_change_rate := True\<rparr>, row)"
  by (simp add: set_depreciation_rate_callback_def Let_def)

text \<open>
  Claim C5. On the row \<open>book25\<close>, whose rate is 25, and the reply 25, the callback of
  \<open>set_depreciation_rate\<close> leaves \<open>dont_change_rate\<close> set and the row as it was. The
  user's next edit of the rate, to 30, then leaves \<open>expected_value_after_useful_life\<close>
  at 100, where the same edit with the flag unset makes it 0; only that run of the
  handler clears the flag.
\<close>

theorem dont_change_rate_stale:
  "\<not> dont_change_rate form0 \<and>
   set_depreciation_rate_callback fw0 (Some 25) (form0, book25) =
     (form0\<lparr>dont_change_rate := True\<rparr>, book25) \<and>
   rate_of_depreciation_handler fw0
     (form0\<lparr>dont_change_rate := True\<rparr>, book25\<lparr>rate_of_depreciation := 30\<rparr>) =
     (form0\<lparr>dont_change_rate := True\<rparr>\<lparr>dont_change_rate := False\<rparr>,
      book25\<lparr>rate_of_depreciation := 30\<rparr>) \<and>
   expected_value_after_useful_life (book25\<lparr>rate_of_depreciation := 30\<rparr>) = 100 \<and>
   expected_value_after_useful_life
     (snd (rate_of_depreciation_handler fw0 (form0, book25\<lparr>rate_of_depreciation := 30\<rparr>))) = 0"
proof -
  have r: "flt_prec fw0 (flt (Some 25)) (precision fw0 ''rate_of_depreciation'') = 25"
    by code_simp
  have f: "\<not> dont_change_rate form0"
    "\<not> from_set_salvage_value_percentage_or_expected_value_after_useful_life form0"
    by (simp_all add: form0_def)
  have c: "set_depreciation_rate_callback fw0 (Some 25) (form0, book25) =
             (form0\<lparr>dont_change_rate := True\<rparr>, book25)"
    by (rule set_depreciation_rate_callback_stale)
       (simp_all add: r truthy_num_def book25_def book0_def)
  have e: "expected_value_after_useful_life
             (snd (rate_of_depreciation_handler fw0
                     (form0, book25\<lparr>rate_of_depreciation := 30\<rparr>))) = 0"
    using f
    by (simp add: rate_of_depreciation_handler_def book25_def book0_def
          expected_value_after_useful_life_handler_run split_beta)
  show ?thesis
    using f c e
    by (simp add: rate_of_depreciation_handler_guarded book25_def book0_def)
qed

subsection \<open>Sales Order\<close>

text \<open>
  Claim C7. For a submitted Sales Order and a user with submit permission: when the
  status is neither Closed nor On Hold, \<open>refresh\<close> offers Hold, and likewise Close,
  exactly when \<open>per_delivered\<close> rounded to 6 decimals is below 100 or \<open>per_billed\<close> is
  below 100; when the status is On Hold it offers Resume, and when it is Closed it offers
  Re-open.
\<close>

theorem hold_close_resume_reopen:
  assumes "so_docstatus d = 1" and "has_perm_submit env"
  shows "(so_status d \<noteq> ''Closed'' \<and> so_status d \<noteq> ''On Hold'' \<longrightarrow>
            ((''Hold'', ''Status'') \<in> set (SalesOrderController_refresh fw env d)
               \<longleftrightarrow> not_fully_delivered_or_billed fw d) \<and>
            ((''Close'', ''Status'') \<in> set (SalesOrderController_refresh fw env d)
               \<longleftrightarrow> not_fully_delivered_or_billed fw d)) \<and>
         (so_status d = ''On Hold'' \<longrightarrow>
            (''Resume'', ''Status'') \<in> set (SalesOrderController_refresh fw env d)) \<and>
         (so_status d = ''Closed'' \<longrightarrow>
            (''Re-open'', ''Status'') \<in> set (SalesOrderController_refresh fw env d))"
  using assms by (simp add: SalesOrderController_refresh_def Let_def)

theorem hold_close_resume_reopen_witness:
  "so_docstatus order0 = 1 \<and> has_perm_submit env0 \<and>
   so_status order0 \<noteq> ''Closed'' \<and> so_status order0 \<noteq> ''On Hold'' \<and>
   not_fully_delivered_or_billed fw0 order0 \<and>
   (''Hold'', ''Status'') \<in> set (SalesOrderController_refresh fw0 env0 order0) \<and>
   (''Close'', ''Status'') \<in> set (SalesOrderController_refresh fw0 env0 order0) \<and>
   so_docstatus (order0\<lparr>per_delivered := Some 100\<rparr>) = 1 \<and>
   \<not> not_fully_delivered_or_billed fw0 (order0\<lparr>per_delivered := Some 100\<rparr>) \<and>
   (''Hold'', ''Status'') \<notin> set (SalesOrderController_refresh fw0 env0 (order0\<lparr>per_delivered := Some 100\<rparr>)) \<and>
   so_status (order0\<lparr>so_status := ''On Hold''\<rparr>) = ''On Hold'' \<and>
   (''Resume'', ''Status'') \<in> set (SalesOrderController_refresh fw0 env0 (order0\<lparr>so_status := ''On Hold''\<rparr>)) \<and>
   so_status (order0\<lparr>so_status := ''Closed''\<rparr>) = ''Closed'' \<and>
   (''Re-open'', ''Status'') \<in> set (SalesOrderController_refresh fw0 env0 (order0\<lparr>so_status := ''Closed''\<rparr>))"
proof -
  have r1: "flt_dec fw0 (Some 40) 6 = 40" by code_simp
  have r2: "flt_dec fw0 (Some 100) 6 = 100" by code_simp
  have c1: "not_fully_delivered_or_billed fw0 order0"
    by (simp add: not_fully_delivered_or_billed_def order0_def r1)
  have c2: "\<not> not_fully_delivered_or_billed fw0 (order0\<lparr>per_delivered := Some 100\<rparr>)"
    by (simp add: not_fully_delivered_or_billed_def order0_def r2 flt_def)
  have s: "so_docstatus order0 = 1" "has_perm_submit env0"
    "so_status order0 \<noteq> ''Closed''" "so_status order0 \<noteq> ''On Hold''"
    by (simp_all add: order0_def env0_def)
  from hold_close_resume_reopen [of order0 env0 fw0]
    hold_close_resume_reopen [of "order0\<lparr>per_delivered := Some 100\<rparr>" env0 fw0]
    hold_close_resume_reopen [of "order0\<lparr>so_status := ''On Hold''\<rparr>" env0 fw0]
    hold_close_resume_reopen [of "order0\<lparr>so_status := ''Closed''\<rparr>" env0 fw0]
    c1 c2 s
  show ?thesis by simp
qed

text \<open>
  Claim C8. \<open>make_purchase_order\<close> throws ``Purchase Order already created for all
  Sales Order items'' if and only if every item has \<open>stock_qty\<close> minus \<open>ordered_qty\<close>
  at most 0; it shows the dialog if and only if some item has a positive pending
  quantity; and it throws nothing else.
\<close>

theorem make_purchase_order_throws:
  "(make_purchase_order fw so = Inl (Thrown all_ordered)
      \<longleftrightarrow> (\<forall>item \<in> set (so_items so). flt (stock_qty item) - flt (ordered_qty item) \<le> 0)) \<and>
   ((\<exists>dialog. make_purchase_order fw so = Inr dialog)
      \<longleftrightarrow> (\<exists>item \<in> set (so_items so). flt (stock_qty item) - flt (ordered_qty item) > 0)) \<and>
   (\<forall>e. make_purchase_order fw so = Inl e \<longrightarrow> e = Thrown all_ordered)"
  by (auto simp: make_purchase_order_def Let_def list_ex_iff not_less not_le)

theorem make_purchase_order_throws_witness:
  "list_all (\<lambda>item. flt (stock_qty item) - flt (ordered_qty item) \<le> 0)
     (so_items (order0\<lparr>so_items := [hd (so_items order0)]\<rparr>)) \<and>
   make_purchase_order fw0 (order0\<lparr>so_items := [hd (so_items order0)]\<rparr>) = Inl (Thrown all_ordered) \<and>
   list_ex (\<lambda>item. flt (stock_qty item) - flt (ordered_qty item) > 0) (so_items order0) \<and>
   (\<exists>dialog. make_purchase_order fw0 order0 = Inr dialog)"
proof -
  have a: "\<forall>item \<in> set (so_items (order0\<lparr>so_items := [hd (so_items order0)]\<rparr>)).
             flt (stock_qty item) - flt (ordered_qty item) \<le> 0"
    by (simp add: order0_def flt_def)
  have b: "\<exists>item \<in> set (so_items order0). flt (stock_qty item) - flt (ordered_qty item) > 0"
    by (simp add: order0_def flt_def)
  from a make_purchase_order_throws [of fw0 "order0\<lparr>so_items := [hd (so_items order0)]\<rparr>"]
  have c: "make_purchase_order fw0 (order0\<lparr>so_items := [hd (so_items order0)]\<rparr>) = Inl (Thrown all_ordered)"
    by blast
  from b make_purchase_order_throws [of fw0 order0]
  have d: "\<exists>dialog. make_purchase_order fw0 order0 = Inr dialog"
    by blast
  from a b c d show ?thesis by (simp only: list_all_iff list_ex_iff) 
qed

end
